theory Spec2Isabelle
  imports Main "HOL-Library.Sublist" "HOL-Library.AList"
begin

section \<open>Values, strings and headers\<close>

text \<open>
  JSON values as \<open>JSON.parse\<close> produces them. Finite numbers are integers here (the
  claims do not depend on fractions); a numeral beyond the range of a double parses to an
  infinity (\<open>True\<close> for the positive one), which \<open>JSON.stringify\<close> writes as
  \<open>null\<close>. An object is its list of own properties.
\<close>

datatype json =
    JNull
  | JBool bool
  | JNum int
  | JInfinity bool
  | JStr string
  | JArr "json list"
  | JObj "(string \<times> json) list"

fun typeof_json :: "json \<Rightarrow> string" where
  "typeof_json JNull = ''object''"
| "typeof_json (JBool _) = ''boolean''"
| "typeof_json (JNum _) = ''number''"
| "typeof_json (JInfinity _) = ''number''"
| "typeof_json (JStr _) = ''string''"
| "typeof_json (JArr _) = ''object''"
| "typeof_json (JObj _) = ''object''"

fun isArray_json :: "json \<Rightarrow> bool" where
  "isArray_json (JArr _) = True"
| "isArray_json _ = False"

text \<open>utils.ts: \<open>typeof x === 'object' && x !== null && !Array.isArray(x)\<close>.\<close>

definition isPlainObject :: "json \<Rightarrow> bool" where
  "isPlainObject x = (typeof_json x = ''object'' \<and> x \<noteq> JNull \<and> \<not> isArray_json x)"

text \<open>utils.ts \<open>byteLen\<close>: the UTF-8 length; a \<open>string\<close> here is already a byte list.\<close>

definition byteLen :: "string \<Rightarrow> nat" where
  "byteLen s = length s"

definition upperChars :: string where
  "upperChars = ''ABCDEFGHIJKLMNOPQRSTUVWXYZ''"

definition lowerChars :: string where
  "lowerChars = ''abcdefghijklmnopqrstuvwxyz''"

definition toUpperCase :: "string \<Rightarrow> string" where
  "toUpperCase = map (\<lambda>c. case map_of (zip lowerChars upperChars) c of Some u \<Rightarrow> u | None \<Rightarrow> c)"

definition toLowerCase :: "string \<Rightarrow> string" where
  "toLowerCase = map (\<lambda>c. case map_of (zip upperChars lowerChars) c of Some l \<Rightarrow> l | None \<Rightarrow> c)"

text \<open>\<open>String.prototype.includes\<close>: the argument occurs as a contiguous substring.\<close>

fun str_includes :: "string \<Rightarrow> string \<Rightarrow> bool" where
  "str_includes [] sub = (sub = [])"
| "str_includes (c # cs) sub = (prefix sub (c # cs) \<or> str_includes cs sub)"

text \<open>
  The Fetch \<open>Headers\<close> class: a map from lower-cased names to values; every operation
  lower-cases the name it is given.
\<close>

type_synonym headers = "string \<rightharpoonup> string"

definition headers_get :: "headers \<Rightarrow> string \<Rightarrow> string option" where
  "headers_get h n = h (toLowerCase n)"

definition headers_has :: "headers \<Rightarrow> string \<Rightarrow> bool" where
  "headers_has h n = (h (toLowerCase n) \<noteq> None)"

definition headers_set :: "headers \<Rightarrow> string \<Rightarrow> string \<Rightarrow> headers" where
  "headers_set h n v = h(toLowerCase n \<mapsto> v)"

definition headers_delete :: "headers \<Rightarrow> string \<Rightarrow> headers" where
  "headers_delete h n = h(toLowerCase n := None)"

section \<open>Requests, responses, hooks and the core's state\<close>

text \<open>
  \<open>RequestInit\<close>: the method, the headers, and everything else the caller passed
  (body, credentials, ...) as an opaque list of options. \<open>{}\<close> is \<open>emptyInit\<close>.
\<close>

record request_init =
  init_method :: "string option"
  init_headers :: headers
  init_other :: "(string \<times> string) list"

definition emptyInit :: request_init where
  "emptyInit = \<lparr>init_method = None, init_headers = Map.empty, init_other = []\<rparr>"

record response =
  resp_status :: nat
  resp_statusText :: string
  resp_headers :: headers
  resp_body :: string

text \<open>The codec's \<open>StructureDefinition\<close>: an id and an opaque shape.\<close>

datatype structure_def = StructureDefinition (sd_id: string) (sd_shape: json)

datatype phase = Request | Response | Decode | Learn

text \<open>
  One constructor per lifecycle hook, carrying the context object the hook is called with.
  The state keeps the list of hook calls made, in order.
\<close>

datatype event =
    Init bool
  | BeforeRequest string string headers request_init bool "string option"
  | AfterResponse string string response bool
  | TransformDecoded string string bool "int option" "nat option" json
  | PacketDecoded string string "int option" nat
  | LearnedStructure string string
  | OnError phase string

text \<open>
  \<open>LifecycleHooks\<close> (types.ts): every hook is optional. A hook is the caller's code: it
  either returns (\<open>True\<close>) or throws (\<open>False\<close>); \<open>transformDecoded\<close> returns the
  replacement value or throws (\<open>None\<close>). Hooks are taken not to mutate the objects
  they are shown.
\<close>

record lifecycle =
  onInit :: "(event \<Rightarrow> bool) option"
  beforeRequest :: "(event \<Rightarrow> bool) option"
  afterResponse :: "(event \<Rightarrow> bool) option"
  transformDecoded :: "(event \<Rightarrow> json option) option"
  onPacketDecoded :: "(event \<Rightarrow> bool) option"
  onLearnedStructure :: "(event \<Rightarrow> bool) option"
  onError :: "(event \<Rightarrow> bool) option"

record core_options =
  isTargetUrl :: "(string \<Rightarrow> bool) option"
  enableLifecycle :: bool
  lifecycle :: lifecycle

text \<open>
  What the core calls but does not implement: the network (\<open>originalFetch\<close>, answering
  from the calls made so far, \<open>None\<close> when the promise rejects), the platform's
  \<open>new URL(s).origin\<close> (\<open>None\<close> when it throws), \<open>JSON.parse\<close> (\<open>None\<close> when it
  throws), \<open>JSON.stringify\<close>, \<open>Number\<close> (\<open>None\<close> for NaN), and the codec of
  @synpatico/core (\<open>decode\<close> is \<open>None\<close> when it throws).
\<close>

record platform =
  originalFetch :: "(string \<times> request_init) list \<Rightarrow> string \<Rightarrow> request_init \<Rightarrow> response option"
  urlOrigin :: "string \<Rightarrow> string option"
  JSON_parse :: "string \<Rightarrow> json option"
  JSON_stringify :: "json \<Rightarrow> string"
  Number :: "string \<Rightarrow> int option"
  createStructureDefinition :: "json \<Rightarrow> structure_def"
  decode :: "json \<Rightarrow> structure_def \<Rightarrow> json option"

text \<open>
  The closure state of \<open>createCore\<close>: the registry's two maps and the set of known
  origins, together with the list of \<open>originalFetch\<close> calls issued and of hook calls made.
\<close>

record core_state =
  structures :: "string \<rightharpoonup> structure_def"
  requestToStructureId :: "string \<rightharpoonup> string"
  knownSynpaticoOrigins :: "string set"
  calls :: "(string \<times> request_init) list"
  events :: "event list"

datatype failure = NetworkFailure | HookThrew | TypeError

section \<open>core.ts\<close>

text \<open>\<open>lifecycle.hook?.(ctx)\<close>: nothing happens when the hook is absent.\<close>

definition notify :: "(event \<Rightarrow> bool) option \<Rightarrow> event \<Rightarrow> core_state \<Rightarrow> bool \<times> core_state" where
  "notify h e s =
     (case h of
        None \<Rightarrow> (True, s)
      | Some f \<Rightarrow> (f e, s\<lparr>events := events s @ [e]\<rparr>))"

text \<open>
  \<open>lifecycle.onError?.(err, {url, phase})\<close> inside a catch block: when the hook itself
  throws, nothing catches it.
\<close>

definition reportError :: "lifecycle \<Rightarrow> phase \<Rightarrow> string \<Rightarrow> core_state \<Rightarrow> failure option \<times> core_state" where
  "reportError L ph url s =
     (case notify (onError L) (OnError ph url) s of
        (True, s') \<Rightarrow> (None, s')
      | (False, s') \<Rightarrow> (Some HookThrew, s'))"

definition createRegistry :: core_state where
  "createRegistry =
     \<lparr>structures = Map.empty, requestToStructureId = Map.empty,
      knownSynpaticoOrigins = {}, calls = [], events = []\<rparr>"

definition createCore :: "core_options \<Rightarrow> failure + core_state" where
  "createCore opts =
     (case notify (onInit (lifecycle opts)) (Init (enableLifecycle opts)) createRegistry of
        (True, s) \<Rightarrow> Inr s
      | (False, s) \<Rightarrow> Inl HookThrew)"

definition callOriginalFetch ::
  "platform \<Rightarrow> string \<Rightarrow> request_init \<Rightarrow> core_state \<Rightarrow> (failure + response) \<times> core_state" where
  "callOriginalFetch P url init s =
     (case originalFetch P (calls s) url init of
        None \<Rightarrow> (Inl NetworkFailure, s\<lparr>calls := calls s @ [(url, init)]\<rparr>)
      | Some r \<Rightarrow> (Inr r, s\<lparr>calls := calls s @ [(url, init)]\<rparr>))"

text \<open>
  \<open>acceptIdHint\<close>, lines 27-38: the hint is looked up under the URL string itself. Only
  the \<open>structureIdHint\<close> field of the result is used by the caller.
\<close>

definition acceptIdHint :: "platform \<Rightarrow> core_state \<Rightarrow> string \<Rightarrow> bool \<Rightarrow> string option" where
  "acceptIdHint P s urlString canOptimize =
     (case urlOrigin P urlString of
        None \<Rightarrow> None
      | Some origin \<Rightarrow>
          if canOptimize \<and> origin \<in> knownSynpaticoOrigins s
          then requestToStructureId s urlString
          else None)"

definition markOrigin :: "platform \<Rightarrow> string \<Rightarrow> core_state \<Rightarrow> core_state" where
  "markOrigin P urlString s =
     (case urlOrigin P urlString of
        None \<Rightarrow> s
      | Some origin \<Rightarrow> s\<lparr>knownSynpaticoOrigins := insert origin (knownSynpaticoOrigins s)\<rparr>)"

text \<open>
  Lines 91-97 and 124-130: \<open>new Headers(resp.headers)\<close>, \<open>set('Content-Type', ...)\<close>,
  \<open>new Response(JSON.stringify(v), {status, statusText, headers})\<close>.
\<close>

definition rebuildResponse :: "platform \<Rightarrow> response \<Rightarrow> json \<Rightarrow> response" where
  "rebuildResponse P resp v =
     \<lparr>resp_status = resp_status resp,
      resp_statusText = resp_statusText resp,
      resp_headers = headers_set (resp_headers resp) ''Content-Type'' ''application/json'',
      resp_body = JSON_stringify P v\<rparr>"

text \<open>
  \<open>packet.structureId\<close> on the parsed packet: a property read on \<open>null\<close> throws a
  TypeError, on any other non-object it is \<open>undefined\<close>; the registry's keys are
  strings, so only a string can be found.
\<close>

fun packetStructureId :: "json \<Rightarrow> failure + string option" where
  "packetStructureId JNull = Inl TypeError"
| "packetStructureId (JObj kvs) =
     (case map_of kvs ''structureId'' of
        Some (JStr sid) \<Rightarrow> Inr (Some sid)
      | _ \<Rightarrow> Inr None)"
| "packetStructureId _ = Inr None"

text \<open>Lines 64-68: the original size, when the header is present, non-empty and numeric.\<close>

definition originalSizeOf :: "platform \<Rightarrow> response \<Rightarrow> int option" where
  "originalSizeOf P resp =
     (case headers_get (resp_headers resp) ''X-Synpatico-Original-Size'' of
        None \<Rightarrow> None
      | Some h \<Rightarrow> if h = [] then None else Number P h)"

text \<open>The catch block of lines 98-101: report, then reissue with an empty init.\<close>

definition decodeFailed ::
  "platform \<Rightarrow> lifecycle \<Rightarrow> string \<Rightarrow> core_state \<Rightarrow> (failure + response) \<times> core_state" where
  "decodeFailed P L urlString s =
     (case reportError L Decode urlString s of
        (Some f, s') \<Rightarrow> (Inl f, s')
      | (None, s') \<Rightarrow> callOriginalFetch P urlString emptyInit s')"

text \<open>Lines 80-89 and 115-122: the optional transform hook.\<close>

definition applyTransform ::
  "lifecycle \<Rightarrow> event \<Rightarrow> json \<Rightarrow> core_state \<Rightarrow> json option \<times> core_state" where
  "applyTransform L e v s =
     (case transformDecoded L of
        None \<Rightarrow> (Some v, s)
      | Some f \<Rightarrow> (f e, s\<lparr>events := events s @ [e]\<rparr>))"

definition handleOptimizedPacketResponse ::
  "platform \<Rightarrow> lifecycle \<Rightarrow> response \<Rightarrow> string \<Rightarrow> core_state \<Rightarrow> (failure + response) \<times> core_state" where
  "handleOptimizedPacketResponse P L resp urlString s =
     (let text = resp_body resp in
      case JSON_parse P text of
        None \<Rightarrow> decodeFailed P L urlString s
      | Some packet \<Rightarrow>
          (case packetStructureId packet of
             Inl f \<Rightarrow> (Inl f, s)
           | Inr None \<Rightarrow> callOriginalFetch P urlString emptyInit s
           | Inr (Some sid) \<Rightarrow>
               (case structures s sid of
                  None \<Rightarrow> callOriginalFetch P urlString emptyInit s
                | Some def \<Rightarrow>
                    (let compressedSize = byteLen text;
                         originalSize = originalSizeOf P resp
                     in case decode P packet def of
                          None \<Rightarrow> decodeFailed P L urlString s
                        | Some decoded \<Rightarrow>
                            (case notify (onPacketDecoded L)
                                    (PacketDecoded urlString sid originalSize compressedSize) s of
                               (False, s1) \<Rightarrow> decodeFailed P L urlString s1
                             | (True, s1) \<Rightarrow>
                                 (case applyTransform L
                                         (TransformDecoded urlString sid True originalSize
                                            (Some compressedSize) decoded) decoded s1 of
                                    (None, s2) \<Rightarrow> decodeFailed P L urlString s2
                                  | (Some out, s2) \<Rightarrow> (Inr (rebuildResponse P resp out), s2)))))))"

definition learnFromJsonResponse ::
  "platform \<Rightarrow> lifecycle \<Rightarrow> response \<Rightarrow> string \<Rightarrow> core_state \<Rightarrow> (failure + response) \<times> core_state" where
  "learnFromJsonResponse P L resp urlString s =
     (case JSON_parse P (resp_body resp) of
        None \<Rightarrow> (Inr resp, s)
      | Some data \<Rightarrow>
          if isPlainObject data then
            (let def = createStructureDefinition P data;
                 s1 = s\<lparr>structures := (structures s)(sd_id def \<mapsto> def),
                        requestToStructureId := (requestToStructureId s)(urlString \<mapsto> sd_id def)\<rparr>
             in case notify (onLearnedStructure L) (LearnedStructure urlString (sd_id def)) s1 of
                  (False, s2) \<Rightarrow> (Inr resp, s2)
                | (True, s2) \<Rightarrow>
                    (case applyTransform L
                            (TransformDecoded urlString (sd_id def) False None None data) data s2 of
                       (None, s3) \<Rightarrow> (Inr resp, s3)
                     | (Some out, s3) \<Rightarrow> (Inr (rebuildResponse P resp out), s3)))
          else (Inr resp, s))"

text \<open>Line 140: \<open>(init.method || 'GET').toUpperCase()\<close>; an empty string is falsy.\<close>

definition requestMethod :: "request_init \<Rightarrow> string" where
  "requestMethod init =
     toUpperCase (case init_method init of
                    None \<Rightarrow> ''GET''
                  | Some m \<Rightarrow> if m = [] then ''GET'' else m)"

text \<open>Lines 150-155: \<open>if (structureIdHint)\<close>; an empty id is falsy.\<close>

definition structureIdHint :: "platform \<Rightarrow> core_state \<Rightarrow> string \<Rightarrow> request_init \<Rightarrow> string option" where
  "structureIdHint P s urlString init =
     (case acceptIdHint P s urlString (requestMethod init = ''GET'') of
        None \<Rightarrow> None
      | Some sid \<Rightarrow> if sid = [] then None else Some sid)"

definition enhancedInit :: "request_init \<Rightarrow> string option \<Rightarrow> request_init" where
  "enhancedInit init hint =
     (case hint of
        None \<Rightarrow> init
      | Some sid \<Rightarrow> init\<lparr>init_headers := headers_set (init_headers init) ''X-Synpatico-Accept-ID'' sid\<rparr>)"

text \<open>Lines 189-191: the caller's init with the negotiation header deleted.\<close>

definition retryInit :: "request_init \<Rightarrow> request_init" where
  "retryInit init = init\<lparr>init_headers := headers_delete (init_headers init) ''X-Synpatico-Accept-ID''\<rparr>"

text \<open>
  Lines 157-170 and 175-186: a request or response hook runs only when the lifecycle is
  enabled, and its exception is reported to \<open>onError\<close>.
\<close>

definition guardedHook ::
  "core_options \<Rightarrow> (event \<Rightarrow> bool) option \<Rightarrow> event \<Rightarrow> phase \<Rightarrow> string \<Rightarrow> core_state
     \<Rightarrow> failure option \<times> core_state" where
  "guardedHook opts h e ph url s =
     (if enableLifecycle opts then
        (case notify h e s of
           (True, s1) \<Rightarrow> (None, s1)
         | (False, s1) \<Rightarrow> reportError (lifecycle opts) ph url s1)
      else (None, s))"

text \<open>Line 201: \<open>resp.headers.get('content-type') || ''\<close>.\<close>

definition contentType :: "response \<Rightarrow> string" where
  "contentType resp =
     (case headers_get (resp_headers resp) ''content-type'' of None \<Rightarrow> [] | Some c \<Rightarrow> c)"

text \<open>Lines 188-208: what is done with the response of the first call.\<close>

definition classifyResponse ::
  "platform \<Rightarrow> core_options \<Rightarrow> string \<Rightarrow> request_init \<Rightarrow> bool \<Rightarrow> response \<Rightarrow> core_state
     \<Rightarrow> (failure + response) \<times> core_state" where
  "classifyResponse P opts urlString init wasOptimized resp s =
     (if resp_status resp = 409 \<and> wasOptimized then
        callOriginalFetch P urlString (retryInit init) s
      else if \<not> headers_has (resp_headers resp) ''X-Synpatico-Agent'' then (Inr resp, s)
      else
        (let s1 = markOrigin P urlString s;
             ct = contentType resp
         in if str_includes ct ''application/synpatico-packet+json''
            then handleOptimizedPacketResponse P (lifecycle opts) resp urlString s1
            else if str_includes ct ''application/json''
            then learnFromJsonResponse P (lifecycle opts) resp urlString s1
            else (Inr resp, s1)))"

definition synpaticoFetch ::
  "platform \<Rightarrow> core_options \<Rightarrow> string \<Rightarrow> request_init \<Rightarrow> core_state
     \<Rightarrow> (failure + response) \<times> core_state" where
  "synpaticoFetch P opts urlString init s =
     (let method = requestMethod init in
      if (case isTargetUrl opts of None \<Rightarrow> False | Some f \<Rightarrow> \<not> f urlString)
      then callOriginalFetch P urlString init s
      else
        (let hint = structureIdHint P s urlString init;
             enhanced = enhancedInit init hint;
             wasOptimized = (hint \<noteq> None)
         in case guardedHook opts (beforeRequest (lifecycle opts))
                   (BeforeRequest urlString method (init_headers enhanced) init wasOptimized
                      (acceptIdHint P s urlString (method = ''GET'')))
                   Request urlString s of
              (Some f, s1) \<Rightarrow> (Inl f, s1)
            | (None, s1) \<Rightarrow>
                (case callOriginalFetch P urlString enhanced s1 of
                   (Inl f, s2) \<Rightarrow> (Inl f, s2)
                 | (Inr resp, s2) \<Rightarrow>
                     (case guardedHook opts (afterResponse (lifecycle opts))
                             (AfterResponse urlString method resp wasOptimized)
                             Response urlString s2 of
                        (Some f, s3) \<Rightarrow> (Inl f, s3)
                      | (None, s3) \<Rightarrow>
                          classifyResponse P opts urlString init wasOptimized resp s3))))"

definition clearCache :: "core_state \<Rightarrow> core_state" where
  "clearCache s =
     s\<lparr>structures := Map.empty, requestToStructureId := Map.empty, knownSynpaticoOrigins := {}\<rparr>"


text \<open>Predicates used to state the properties of \<open>synpaticoFetch\<close>.\<close>

definition isTarget :: "core_options \<Rightarrow> string \<Rightarrow> bool" where
  "isTarget opts url = (case isTargetUrl opts of None \<Rightarrow> True | Some f \<Rightarrow> f url)"

definition onErrorReturns :: "lifecycle \<Rightarrow> bool" where
  "onErrorReturns L = (case onError L of None \<Rightarrow> True | Some f \<Rightarrow> \<forall>e. f e)"

text \<open>
  What a notification hook does when called with an event (an absent hook returns), and
  what the optional transform hook makes of a value (an absent hook leaves it as it is).
\<close>

definition hookReturns :: "(event \<Rightarrow> bool) option \<Rightarrow> event \<Rightarrow> bool" where
  "hookReturns h e = (case h of None \<Rightarrow> True | Some f \<Rightarrow> f e)"

definition transformResult :: "lifecycle \<Rightarrow> event \<Rightarrow> json \<Rightarrow> json option" where
  "transformResult L e v = (case transformDecoded L of None \<Rightarrow> Some v | Some f \<Rightarrow> f e)"

fun processingEvent :: "event \<Rightarrow> bool" where
  "processingEvent (TransformDecoded _ _ _ _ _ _) = True"
| "processingEvent (PacketDecoded _ _ _ _) = True"
| "processingEvent (LearnedStructure _ _) = True"
| "processingEvent _ = False"


section \<open>The monkey patch's registry key\<close>

text \<open>
  \<open>registryKey\<close> of the monkey-patch variant: \<open>new URL(input, location.origin)\<close> is the
  platform's (\<open>None\<close> when it throws); the key is \<open>u.origin + u.pathname\<close>, and the
  input itself when parsing fails.
\<close>

record url_parts =
  url_origin :: string
  url_pathname :: string
  url_search :: string

definition registryKey :: "(string \<Rightarrow> url_parts option) \<Rightarrow> string \<Rightarrow> string" where
  "registryKey newURL input =
     (case newURL input of
        Some u \<Rightarrow> url_origin u @ url_pathname u
      | None \<Rightarrow> input)"

section \<open>usageWorker.ts\<close>

text \<open>
  A \<open>Map\<close> is its list of entries in insertion order; \<open>AList.update\<close> is \<open>Map.set\<close>
  (replace in place, or append), and the size is the length of the list.
\<close>

datatype telemetry_msg =
    PathsStrings string string nat "string list"
  | PathsOrdinals string string nat "int list"

fun msg_structureId :: "telemetry_msg \<Rightarrow> string" where
  "msg_structureId (PathsStrings sid _ _ _) = sid"
| "msg_structureId (PathsOrdinals sid _ _ _) = sid"

fun msg_endpoint :: "telemetry_msg \<Rightarrow> string" where
  "msg_endpoint (PathsStrings _ ep _ _) = ep"
| "msg_endpoint (PathsOrdinals _ ep _ _) = ep"

type_synonym bucket = "(string \<times> nat) list"

type_synonym buckets = "(string \<times> bucket) list"

definition MAX_PATHS_PER_BUCKET :: nat where
  "MAX_PATHS_PER_BUCKET = 5000"

definition bucketKey :: "string \<Rightarrow> string \<Rightarrow> string" where
  "bucketKey sid ep = sid @ ''@@'' @ ep"

text \<open>\<open>String(ord)\<close> for an integer: its decimal digits, with a sign when negative.\<close>

fun digitsOf :: "nat \<Rightarrow> string" where
  "digitsOf n =
     (if n < 10 then [''0123456789'' ! n]
      else digitsOf (n div 10) @ [''0123456789'' ! (n mod 10)])"

declare digitsOf.simps [simp del]

definition String_of :: "int \<Rightarrow> string" where
  "String_of i = (if i < 0 then CHR ''-'' # digitsOf (nat (- i)) else digitsOf (nat i))"

text \<open>
  The body of both loops of \<open>handleMsg\<close>, lines 30-33 and 35-39: a path the bucket does
  not have is skipped when the bucket is full; otherwise its count is set to
  \<open>(bucket.get(p) || 0) + 1\<close>.
\<close>

fun addPaths :: "bucket \<Rightarrow> string list \<Rightarrow> bucket" where
  "addPaths bucket [] = bucket"
| "addPaths bucket (p # ps) =
     (if map_of bucket p = None \<and> length bucket \<ge> MAX_PATHS_PER_BUCKET
      then addPaths bucket ps
      else addPaths
             (AList.update p ((case map_of bucket p of None \<Rightarrow> 0 | Some c \<Rightarrow> c) + 1) bucket) ps)"

definition handleMsg :: "telemetry_msg \<Rightarrow> buckets \<Rightarrow> buckets" where
  "handleMsg msg bs =
     (let key = bucketKey (msg_structureId msg) (msg_endpoint msg);
          bucket = (case map_of bs key of None \<Rightarrow> [] | Some b \<Rightarrow> b)
      in AList.update key
           (case msg of
              PathsStrings _ _ _ paths \<Rightarrow> addPaths bucket paths
            | PathsOrdinals _ _ _ ordinals \<Rightarrow> addPaths bucket (map String_of ordinals))
           bs)"

text \<open>
  The worker's life: messages arrive and the timer (or pagehide) flushes. Of \<open>flush\<close>
  only \<open>buckets.clear()\<close> touches the state; the payload it posts is not kept.
\<close>

datatype worker_event = Message telemetry_msg | Flush

fun workerStep :: "buckets \<Rightarrow> worker_event \<Rightarrow> buckets" where
  "workerStep bs (Message msg) = handleMsg msg bs"
| "workerStep bs Flush = []"

definition runWorker :: "worker_event list \<Rightarrow> buckets" where
  "runWorker evs = foldl workerStep [] evs"

text \<open>The paths a message carries, as its loop visits them.\<close>

fun msgPaths :: "telemetry_msg \<Rightarrow> string list" where
  "msgPaths (PathsStrings _ _ _ paths) = paths"
| "msgPaths (PathsOrdinals _ _ _ ordinals) = map String_of ordinals"

text \<open>Lines 23-28: the bucket a message is counted in, empty when it is new.\<close>

definition bucketOf :: "buckets \<Rightarrow> telemetry_msg \<Rightarrow> bucket" where
  "bucketOf bs msg =
     (case map_of bs (bucketKey (msg_structureId msg) (msg_endpoint msg)) of
        None \<Rightarrow> []
      | Some b \<Rightarrow> b)"

definition bucketsBounded :: "buckets \<Rightarrow> bool" where
  "bucketsBounded bs =
     list_all (\<lambda>kb. distinct (map fst (snd kb)) \<and> length (snd kb) \<le> MAX_PATHS_PER_BUCKET) bs"

section \<open>proxy.ts\<close>

text \<open>
  Values the proxy can be given. An object carries what \<open>instanceof\<close> and its inherited
  \<open>constructor\<close> depend on, and its own properties; inherited properties other than
  \<open>constructor\<close> are not modelled. Property keys are strings or symbols.
\<close>

datatype objkind = PlainObject | NullPrototype | ClassInstance | DateObject | RegExpObject | ErrorObject

datatype jsval =
    VUndefined
  | VNull
  | VBool bool
  | VNum int
  | VStr string
  | VArr "jsval list"
  | VObj objkind "(string \<times> jsval) list"

datatype property_key = PString string | PSymbol string

fun typeof :: "jsval \<Rightarrow> string" where
  "typeof VUndefined = ''undefined''"
| "typeof VNull = ''object''"
| "typeof (VBool _) = ''boolean''"
| "typeof (VNum _) = ''number''"
| "typeof (VStr _) = ''string''"
| "typeof (VArr _) = ''object''"
| "typeof (VObj _ _) = ''object''"

fun isArray :: "jsval \<Rightarrow> bool" where
  "isArray (VArr _) = True"
| "isArray _ = False"

fun instanceOf :: "jsval \<Rightarrow> objkind \<Rightarrow> bool" where
  "instanceOf (VObj k _) c = (k = c)"
| "instanceOf _ c = False"

definition digitValue :: "char \<Rightarrow> nat option" where
  "digitValue c = map_of (zip ''0123456789'' [0, 1, 2, 3, 4, 5, 6, 7, 8, 9]) c"

fun digitsValue :: "string \<Rightarrow> nat \<Rightarrow> nat option" where
  "digitsValue [] acc = Some acc"
| "digitsValue (c # cs) acc =
     (case digitValue c of None \<Rightarrow> None | Some d \<Rightarrow> digitsValue cs (10 * acc + d))"

text \<open>An array index is a canonical decimal numeral.\<close>

definition arrayIndex :: "string \<Rightarrow> nat option" where
  "arrayIndex name =
     (case name of
        [] \<Rightarrow> None
      | c # cs \<Rightarrow> if c = CHR ''0'' \<and> cs \<noteq> [] then None else digitsValue name 0)"

text \<open>\<open>Reflect.get(obj, prop)\<close> on own properties; a missing property is \<open>undefined\<close>.\<close>

fun Reflect_get :: "jsval \<Rightarrow> property_key \<Rightarrow> jsval" where
  "Reflect_get (VObj _ props) (PString name) =
     (case map_of props name of Some v \<Rightarrow> v | None \<Rightarrow> VUndefined)"
| "Reflect_get (VArr xs) (PString name) =
     (if name = ''length'' then VNum (int (length xs))
      else case arrayIndex name of
             None \<Rightarrow> VUndefined
           | Some i \<Rightarrow> if i < length xs then xs ! i else VUndefined)"
| "Reflect_get _ _ = VUndefined"

text \<open>
  \<open>value.constructor === Object || value.constructor === undefined\<close>: an own
  \<open>constructor\<close> property shadows the inherited one, and no value here is the function
  \<open>Object\<close>.
\<close>

fun constructorIsObjectOrUndefined :: "jsval \<Rightarrow> bool" where
  "constructorIsObjectOrUndefined (VObj k props) =
     (case map_of props ''constructor'' of
        Some c \<Rightarrow> c = VUndefined
      | None \<Rightarrow> k = PlainObject \<or> k = NullPrototype)"
| "constructorIsObjectOrUndefined _ = False"

record proxy_context =
  ctx_url :: string
  ctx_structureId :: string
  ctx_wasOptimized :: bool
  ctx_originalSize :: "int option"
  ctx_compressedSize :: "int option"
  ctx_rootPath :: "string option"

record proxy_options =
  trackArrayAccess :: "bool option"
  trackMethodCalls :: "bool option"
  maxDepth :: "int option"
  excludePaths :: "string list option"

record resolved_options =
  opt_trackArrayAccess :: bool
  opt_trackMethodCalls :: bool
  opt_maxDepth :: int
  opt_excludePaths :: "string list"

definition DEFAULT_OPTIONS :: resolved_options where
  "DEFAULT_OPTIONS =
     \<lparr>opt_trackArrayAccess = True, opt_trackMethodCalls = False, opt_maxDepth = 10,
      opt_excludePaths = [''constructor'', ''prototype'', ''__proto__'', ''valueOf'', ''toString'']\<rparr>"

text \<open>\<open>{ ...DEFAULT_OPTIONS, ...options }\<close>: a given option replaces the default.\<close>

definition mergeOptions :: "proxy_options \<Rightarrow> resolved_options" where
  "mergeOptions options =
     \<lparr>opt_trackArrayAccess =
        (case trackArrayAccess options of None \<Rightarrow> opt_trackArrayAccess DEFAULT_OPTIONS | Some b \<Rightarrow> b),
      opt_trackMethodCalls =
        (case trackMethodCalls options of None \<Rightarrow> opt_trackMethodCalls DEFAULT_OPTIONS | Some b \<Rightarrow> b),
      opt_maxDepth =
        (case maxDepth options of None \<Rightarrow> opt_maxDepth DEFAULT_OPTIONS | Some d \<Rightarrow> d),
      opt_excludePaths =
        (case excludePaths options of None \<Rightarrow> opt_excludePaths DEFAULT_OPTIONS | Some xs \<Rightarrow> xs)\<rparr>"

text \<open>
  What \<open>trackAccess\<close> receives (\<open>Date.now()\<close> is left out), and what the caller holds:
  the value itself, or a proxy around a target with the path and depth its traps close over.
\<close>

record access_event =
  ev_url :: string
  ev_structureId :: string
  ev_propertyPath :: string
  ev_depth :: nat
  ev_dataType :: string
  ev_wasOptimized :: bool
  ev_originalSize :: "int option"
  ev_compressedSize :: "int option"

datatype tracked = Unwrapped jsval | Proxy jsval string nat

definition rootPathOr :: "proxy_context \<Rightarrow> string" where
  "rootPathOr context = (case ctx_rootPath context of None \<Rightarrow> [] | Some r \<Rightarrow> r)"

definition createTrackingProxy ::
  "jsval \<Rightarrow> proxy_context \<Rightarrow> proxy_options \<Rightarrow> string \<Rightarrow> nat \<Rightarrow> tracked" where
  "createTrackingProxy target context options currentPath depth =
     (let opts = mergeOptions options in
      if int depth > opt_maxDepth opts then Unwrapped target
      else if typeof target \<noteq> ''object'' \<or> target = VNull then Unwrapped target
      else if instanceOf target DateObject \<or> instanceOf target RegExpObject
              \<or> instanceOf target ErrorObject then Unwrapped target
      else Proxy target
             (if currentPath \<noteq> []
              then (if rootPathOr context \<noteq> [] then rootPathOr context @ ''.'' @ currentPath
                    else currentPath)
              else rootPathOr context)
             depth)"

text \<open>The \<open>get\<close> trap of a proxy with target \<open>obj\<close>, path \<open>fullPath\<close> and depth \<open>depth\<close>.\<close>

definition getTrap ::
  "proxy_context \<Rightarrow> proxy_options \<Rightarrow> jsval \<Rightarrow> string \<Rightarrow> nat \<Rightarrow> property_key
     \<Rightarrow> access_event list \<times> tracked" where
  "getTrap context options obj fullPath depth p =
     (let opts = mergeOptions options in
      case p of
        PSymbol _ \<Rightarrow> ([], Unwrapped (Reflect_get obj p))
      | PString name \<Rightarrow>
          if name \<in> set (opt_excludePaths opts) then ([], Unwrapped (Reflect_get obj p))
          else
            (let propertyPath = (if fullPath \<noteq> [] then fullPath @ ''.'' @ name else name);
                 v = Reflect_get obj p;
                 event = \<lparr>ev_url = ctx_url context, ev_structureId = ctx_structureId context,
                          ev_propertyPath = propertyPath, ev_depth = depth,
                          ev_dataType = (if isArray v then ''array'' else typeof v),
                          ev_wasOptimized = ctx_wasOptimized context,
                          ev_originalSize = ctx_originalSize context,
                          ev_compressedSize = ctx_compressedSize context\<rparr>
             in ([event],
                 if typeof v = ''object'' \<and> v \<noteq> VNull then
                   (if isArray v then
                      (if opt_trackArrayAccess opts
                       then createTrackingProxy v context options propertyPath (depth + 1)
                       else Unwrapped v)
                    else if constructorIsObjectOrUndefined v
                    then createTrackingProxy v context options propertyPath (depth + 1)
                    else Unwrapped v)
                 else Unwrapped v)))"

text \<open>
  A chain of property reads by the application, starting from what it was handed: a read
  through a proxy runs the trap, a read on an unwrapped value is an ordinary read, and a
  read on \<open>null\<close> or \<open>undefined\<close> throws (\<open>None\<close>).
\<close>

fun readChain ::
  "proxy_context \<Rightarrow> proxy_options \<Rightarrow> tracked \<Rightarrow> property_key list \<Rightarrow> (access_event list \<times> tracked) option" where
  "readChain context options t [] = Some ([], t)"
| "readChain context options (Proxy obj fullPath depth) (p # ps) =
     (case getTrap context options obj fullPath depth p of
        (evs, t') \<Rightarrow>
          (case readChain context options t' ps of
             None \<Rightarrow> None
           | Some (evs', t'') \<Rightarrow> Some (evs @ evs', t'')))"
| "readChain context options (Unwrapped v) (p # ps) =
     (if v = VNull \<or> v = VUndefined then None
      else readChain context options (Unwrapped (Reflect_get v p)) ps)"

text \<open>The built-in kinds the proxy leaves alone: line 48.\<close>

definition opaqueBuiltin :: "jsval \<Rightarrow> bool" where
  "opaqueBuiltin v =
     (instanceOf v DateObject \<or> instanceOf v RegExpObject \<or> instanceOf v ErrorObject)"

fun wrapsOpaque :: "tracked \<Rightarrow> bool" where
  "wrapsOpaque (Proxy obj _ _) =
     (instanceOf obj DateObject \<or> instanceOf obj RegExpObject \<or> instanceOf obj ErrorObject)"
| "wrapsOpaque (Unwrapped _) = False"

fun proxyDepth :: "tracked \<Rightarrow> nat option" where
  "proxyDepth (Proxy _ _ depth) = Some depth"
| "proxyDepth (Unwrapped _) = None"


section \<open>Test doubles\<close>

text \<open>
  A stubbed platform in the manner of tests/core.real.test.ts, where \<open>fetch\<close> is
  replaced by a function answering from the number of calls made so far. It serves to
  run the definitions above on concrete calls.
\<close>

definition demoUrl :: string where
  "demoUrl = ''https://a.io/u?n=5''"

definition demoOrigin :: "string \<Rightarrow> string option" where
  "demoOrigin u = (if prefix ''https://a.io/'' u then Some ''https://a.io'' else None)"

definition demoParse :: "string \<Rightarrow> json option" where
  \<open>demoParse body =
     (if body = ''{"a":1}'' \<or> body = ''{ "a": 1 }'' then Some (JObj [(''a'', JNum 1)])
      else if body = ''{"ok":true}'' then Some (JObj [(''ok'', JBool True)])
      else if body = ''{"structureId":"S:a","values":[1]}''
      then Some (JObj [(''structureId'', JStr ''S:a''), (''values'', JArr [JNum 1])])
      else if body = ''{"structureId":"S9","values":[2]}''
      then Some (JObj [(''structureId'', JStr ''S9''), (''values'', JArr [JNum 2])])
      else if body = ''{"structureId":"S:a"}'' then Some (JObj [(''structureId'', JStr ''S:a'')])
      else if body = ''{"a":1e400}'' then Some (JObj [(''a'', JInfinity True)])
      else if body = ''{"a":null}'' then Some (JObj [(''a'', JNull)])
      else None)\<close>

definition demoStringify :: "json \<Rightarrow> string" where
  \<open>demoStringify v =
     (if v = JObj [(''a'', JNum 1)] then ''{"a":1}''
      else if v = JObj [(''ok'', JBool True)] then ''{"ok":true}''
      else if v = JObj [(''a'', JInfinity True)] \<or> v = JObj [(''a'', JNull)] then ''{"a":null}''
      else ''null'')\<close>

definition demoCreate :: "json \<Rightarrow> structure_def" where
  "demoCreate v =
     StructureDefinition (case v of JObj kvs \<Rightarrow> ''S:'' @ concat (map fst kvs) | _ \<Rightarrow> ''S'') v"

definition demoDecode :: "json \<Rightarrow> structure_def \<Rightarrow> json option" where
  "demoDecode packet d =
     (case packet of
        JObj kvs \<Rightarrow>
          (case map_of kvs ''values'' of
             Some (JArr [v]) \<Rightarrow> Some (JObj [(''a'', v)])
           | _ \<Rightarrow> None)
      | _ \<Rightarrow> None)"

definition scriptedFetch ::
  "response list \<Rightarrow> (string \<times> request_init) list \<Rightarrow> string \<Rightarrow> request_init \<Rightarrow> response option" where
  "scriptedFetch answers log url init =
     (if length log < length answers then Some (answers ! length log) else None)"

definition demoPlatform :: "response list \<Rightarrow> platform" where
  "demoPlatform answers =
     \<lparr>originalFetch = scriptedFetch answers, urlOrigin = demoOrigin, JSON_parse = demoParse,
      JSON_stringify = demoStringify, Number = (\<lambda>_. None),
      createStructureDefinition = demoCreate, decode = demoDecode\<rparr>"

definition demoHooks :: lifecycle where
  "demoHooks =
     \<lparr>onInit = None, beforeRequest = None, afterResponse = None, transformDecoded = None,
      onPacketDecoded = None, onLearnedStructure = None, onError = Some (\<lambda>_. True)\<rparr>"

definition demoOpts :: core_options where
  "demoOpts = \<lparr>isTargetUrl = None, enableLifecycle = True, lifecycle = demoHooks\<rparr>"

definition agentJsonHeaders :: headers where
  "agentJsonHeaders = [''content-type'' \<mapsto> ''application/json'', ''x-synpatico-agent'' \<mapsto> ''1'']"

definition learnResp :: response where
  \<open>learnResp =
     \<lparr>resp_status = 200, resp_statusText = ''OK'', resp_headers = agentJsonHeaders,
      resp_body = ''{ "a": 1 }''\<rparr>\<close>

definition overflowResp :: response where
  \<open>overflowResp =
     \<lparr>resp_status = 200, resp_statusText = ''OK'', resp_headers = agentJsonHeaders,
      resp_body = ''{"a":1e400}''\<rparr>\<close>

definition okResp :: response where
  \<open>okResp =
     \<lparr>resp_status = 200, resp_statusText = ''OK'', resp_headers = agentJsonHeaders,
      resp_body = ''{"ok":true}''\<rparr>\<close>

definition conflictResp :: response where
  \<open>conflictResp =
     \<lparr>resp_status = 409, resp_statusText = ''Conflict'', resp_headers = agentJsonHeaders,
      resp_body = ''{"a":1}''\<rparr>\<close>

definition bareConflictResp :: response where
  "bareConflictResp =
     \<lparr>resp_status = 409, resp_statusText = ''Conflict'', resp_headers = Map.empty,
      resp_body = []\<rparr>"

definition plainResp :: response where
  \<open>plainResp =
     \<lparr>resp_status = 200, resp_statusText = ''OK'',
      resp_headers = [''content-type'' \<mapsto> ''application/json''],
      resp_body = ''{"a":1}''\<rparr>\<close>


definition agentPacketHeaders :: headers where
  "agentPacketHeaders =
     [''content-type'' \<mapsto> ''application/synpatico-packet+json'', ''x-synpatico-agent'' \<mapsto> ''1'']"

definition packetResp :: response where
  \<open>packetResp =
     \<lparr>resp_status = 200, resp_statusText = ''OK'', resp_headers = agentPacketHeaders,
      resp_body = ''{"structureId":"S:a","values":[1]}''\<rparr>\<close>

definition unknownPacketResp :: response where
  \<open>unknownPacketResp =
     \<lparr>resp_status = 200, resp_statusText = ''OK'', resp_headers = agentPacketHeaders,
      resp_body = ''{"structureId":"S9","values":[2]}''\<rparr>\<close>

definition brokenPacketResp :: response where
  \<open>brokenPacketResp =
     \<lparr>resp_status = 200, resp_statusText = ''OK'', resp_headers = agentPacketHeaders,
      resp_body = ''{"structureId":''\<rparr>\<close>



definition demoNewURL :: "string \<Rightarrow> url_parts option" where
  "demoNewURL input =
     (if input = ''https://a.io/u?n=5''
      then Some \<lparr>url_origin = ''https://a.io'', url_pathname = ''/u'', url_search = ''?n=5''\<rparr>
      else if input = ''https://a.io/u?n=6''
      then Some \<lparr>url_origin = ''https://a.io'', url_pathname = ''/u'', url_search = ''?n=6''\<rparr>
      else None)"

text \<open>The state after \<open>demoUrl\<close> has been learned from \<open>okResp\<close> (logs emptied).\<close>

definition hintedState :: core_state where
  "hintedState =
     \<lparr>structures = [''S:ok'' \<mapsto> demoCreate (JObj [(''ok'', JBool True)])],
      requestToStructureId = [demoUrl \<mapsto> ''S:ok''],
      knownSynpaticoOrigins = {''https://a.io''}, calls = [], events = []\<rparr>"

text \<open>The state after \<open>demoUrl\<close> has been learned from \<open>learnResp\<close> (logs emptied).\<close>

definition learnedState :: core_state where
  "learnedState =
     \<lparr>structures = [''S:a'' \<mapsto> demoCreate (JObj [(''a'', JNum 1)])],
      requestToStructureId = [demoUrl \<mapsto> ''S:a''],
      knownSynpaticoOrigins = {''https://a.io''}, calls = [], events = []\<rparr>"

text \<open>A bucket that holds \<open>MAX_PATHS_PER_BUCKET\<close> paths: the empty one, a, aa, aaa, ...\<close>

definition fullBucket :: bucket where
  "fullBucket = map (\<lambda>n. (replicate n CHR ''a'', 1)) [0..<5000]"

text \<open>A value to wrap, three levels deep, with a date in it, and a depth limit of 1.\<close>

definition demoContext :: proxy_context where
  "demoContext =
     \<lparr>ctx_url = ''https://a.io/u'', ctx_structureId = ''S:a'', ctx_wasOptimized = True,
      ctx_originalSize = None, ctx_compressedSize = None, ctx_rootPath = None\<rparr>"

definition shallowOptions :: proxy_options where
  "shallowOptions =
     \<lparr>trackArrayAccess = None, trackMethodCalls = None, maxDepth = Some 1, excludePaths = None\<rparr>"

definition demoTarget :: jsval where
  "demoTarget =
     VObj PlainObject
       [(''a'', VObj PlainObject [(''b'', VObj PlainObject [(''c'', VNum 1)])]),
        (''when'', VObj DateObject []),
        (''toString'', VStr ''x'')]"

definition authInit :: request_init where
  "authInit =
     \<lparr>init_method = None, init_headers = [''authorization'' \<mapsto> ''Bearer t''], init_other = []\<rparr>"

definition richInit :: request_init where
  "richInit =
     \<lparr>init_method = Some ''get'', init_headers = [''authorization'' \<mapsto> ''Bearer t''],
      init_other = [(''credentials'', ''include'')]\<rparr>"

definition postInit :: request_init where
  "postInit =
     \<lparr>init_method = Some ''post'', init_headers = Map.empty, init_other = [(''body'', ''x'')]\<rparr>"


section \<open>Unfolding sets\<close>

lemmas demo_defs = demoPlatform_def demoOpts_def demoHooks_def demoUrl_def demoOrigin_def
  demoParse_def demoStringify_def demoCreate_def demoDecode_def scriptedFetch_def
  agentJsonHeaders_def agentPacketHeaders_def hintedState_def learnedState_def emptyInit_def

lemmas core_defs = synpaticoFetch_def classifyResponse_def guardedHook_def notify_def reportError_def
  callOriginalFetch_def structureIdHint_def acceptIdHint_def requestMethod_def enhancedInit_def
  retryInit_def markOrigin_def learnFromJsonResponse_def handleOptimizedPacketResponse_def
  decodeFailed_def applyTransform_def rebuildResponse_def originalSizeOf_def
  headers_get_def headers_has_def headers_set_def headers_delete_def
  toUpperCase_def toLowerCase_def upperChars_def lowerChars_def isPlainObject_def byteLen_def
  isTarget_def onErrorReturns_def contentType_def Let_def

section \<open>What a step leaves alone\<close>

text \<open>
  Hooks only lengthen the list of hook calls, and a network call only lengthens the list
  of calls: neither touches the registry or the known origins.
\<close>

lemma notify_frame:
  "notify h e s = (b, s') \<Longrightarrow>
     structures s' = structures s \<and> requestToStructureId s' = requestToStructureId s \<and>
     knownSynpaticoOrigins s' = knownSynpaticoOrigins s \<and> calls s' = calls s \<and>
     (events s' = events s \<or> events s' = events s @ [e])"
  by (auto simp: notify_def split: option.splits)

lemma reportError_frame:
  "reportError L ph url s = (r, s') \<Longrightarrow>
     structures s' = structures s \<and> requestToStructureId s' = requestToStructureId s \<and>
     knownSynpaticoOrigins s' = knownSynpaticoOrigins s \<and> calls s' = calls s \<and>
     (events s' = events s \<or> events s' = events s @ [OnError ph url])"
  by (auto simp: reportError_def split: prod.splits bool.splits dest: notify_frame)

lemma reportError_returns:
  "onErrorReturns L \<Longrightarrow> reportError L ph url s = (r, s') \<Longrightarrow> r = None"
  by (auto simp: reportError_def onErrorReturns_def notify_def split: prod.splits bool.splits option.splits)

lemma guardedHook_frame:
  "guardedHook opts h e ph url s = (r, s') \<Longrightarrow>
     structures s' = structures s \<and> requestToStructureId s' = requestToStructureId s \<and>
     knownSynpaticoOrigins s' = knownSynpaticoOrigins s \<and> calls s' = calls s"
  by (auto simp: guardedHook_def split: if_splits prod.splits bool.splits dest!: notify_frame reportError_frame)

lemma guardedHook_returns:
  "onErrorReturns (lifecycle opts) \<Longrightarrow> guardedHook opts h e ph url s = (r, s') \<Longrightarrow> r = None"
  by (auto simp: guardedHook_def split: if_splits prod.splits bool.splits dest: reportError_returns)

lemma guardedHook_events:
  "\<not> processingEvent e \<Longrightarrow> guardedHook opts h e ph url s = (r, s') \<Longrightarrow>
     filter processingEvent (events s') = filter processingEvent (events s)"
  by (auto simp: guardedHook_def split: if_splits prod.splits bool.splits dest!: notify_frame reportError_frame)

lemma callOriginalFetch_frame:
  "callOriginalFetch P url init s = (r, s') \<Longrightarrow>
     structures s' = structures s \<and> requestToStructureId s' = requestToStructureId s \<and>
     knownSynpaticoOrigins s' = knownSynpaticoOrigins s \<and> events s' = events s \<and>
     calls s' = calls s @ [(url, init)] \<and>
     r = (case originalFetch P (calls s) url init of None \<Rightarrow> Inl NetworkFailure | Some x \<Rightarrow> Inr x)"
  by (auto simp: callOriginalFetch_def split: option.splits)

lemma synpaticoFetch_first_call:
  assumes "isTarget opts url" and "onErrorReturns (lifecycle opts)"
    and "originalFetch P (calls s) url (enhancedInit init (structureIdHint P s url init)) = Some resp"
  shows "\<exists>s3. synpaticoFetch P opts url init s =
            classifyResponse P opts url init (structureIdHint P s url init \<noteq> None) resp s3 \<and>
          structures s3 = structures s \<and> requestToStructureId s3 = requestToStructureId s \<and>
          knownSynpaticoOrigins s3 = knownSynpaticoOrigins s \<and>
          calls s3 = calls s @ [(url, enhancedInit init (structureIdHint P s url init))] \<and>
          filter processingEvent (events s3) = filter processingEvent (events s)"
proof -
  let ?hint = "structureIdHint P s url init"
  let ?enh = "enhancedInit init ?hint"
  obtain r1 s1 where h1: "guardedHook opts (beforeRequest (lifecycle opts))
       (BeforeRequest url (requestMethod init) (init_headers ?enh) init (?hint \<noteq> None)
          (acceptIdHint P s url (requestMethod init = ''GET''))) Request url s = (r1, s1)"
    by (cases "guardedHook opts (beforeRequest (lifecycle opts))
       (BeforeRequest url (requestMethod init) (init_headers ?enh) init (?hint \<noteq> None)
          (acceptIdHint P s url (requestMethod init = ''GET''))) Request url s") auto
  have r1: "r1 = None" using guardedHook_returns[OF assms(2) h1] .
  note f1 = guardedHook_frame[OF h1]
  have e1: "filter processingEvent (events s1) = filter processingEvent (events s)"
    using guardedHook_events[OF _ h1] by simp
  define s2 where "s2 = s1\<lparr>calls := calls s1 @ [(url, ?enh)]\<rparr>"
  have c2: "callOriginalFetch P url ?enh s1 = (Inr resp, s2)"
    using assms(3) f1 by (simp add: callOriginalFetch_def s2_def)
  obtain r3 s3 where h3: "guardedHook opts (afterResponse (lifecycle opts))
       (AfterResponse url (requestMethod init) resp (?hint \<noteq> None)) Response url s2 = (r3, s3)"
    by (cases "guardedHook opts (afterResponse (lifecycle opts))
       (AfterResponse url (requestMethod init) resp (?hint \<noteq> None)) Response url s2") auto
  have r3: "r3 = None" using guardedHook_returns[OF assms(2) h3] .
  note f3 = guardedHook_frame[OF h3]
  have e3: "filter processingEvent (events s3) = filter processingEvent (events s2)"
    using guardedHook_events[OF _ h3] by simp
  have "synpaticoFetch P opts url init s =
          classifyResponse P opts url init (?hint \<noteq> None) resp s3"
    using assms(1) h1 r1 c2 h3 r3
    by (simp add: synpaticoFetch_def isTarget_def Let_def split: option.splits)
  moreover have "calls s3 = calls s @ [(url, ?enh)]" using f1 f3 by (simp add: s2_def)
  moreover have "filter processingEvent (events s3) = filter processingEvent (events s)"
    using e1 e3 by (simp add: s2_def)
  ultimately show ?thesis using f1 f3 by (auto simp: s2_def)
qed

lemma toLowerCase_accept_id: "toLowerCase ''X-Synpatico-Accept-ID'' = ''x-synpatico-accept-id''"
  by (simp add: toLowerCase_def upperChars_def lowerChars_def)

section \<open>The 409 retry\<close>

text \<open>
  C2. On a target URL, when the negotiation header was attached (a non-empty cached id
  was found for a GET call to a known origin) and the first response has status 409, the
  client issues exactly one further call, and it is the same call without the header:
  the same URL, and the caller's init with its method and other options untouched and
  its headers as the caller gave them except that the negotiation header is deleted.
  Whatever that call yields (a response of any kind, or the network's failure) is the
  result. Exactly two calls are logged, the first being the caller's init with the
  header set to the cached id; the registry and the known origins are unchanged, and no
  learn, decode or transform hook is called, so the retried response is neither decoded
  nor learned from. The \<open>onError\<close> hook is taken to return.
\<close>

theorem conflict_retry_once:
  assumes target: "isTarget opts url"
    and quiet: "onErrorReturns (lifecycle opts)"
    and hinted: "structureIdHint P s url init = Some sid"
    and first: "originalFetch P (calls s) url (enhancedInit init (Some sid)) = Some resp"
    and conflict: "resp_status resp = 409"
  shows "case synpaticoFetch P opts url init s of
           (r, s') \<Rightarrow>
             r = (case originalFetch P (calls s @ [(url, enhancedInit init (Some sid))]) url (retryInit init) of
                    None \<Rightarrow> Inl NetworkFailure | Some r2 \<Rightarrow> Inr r2)
             \<and> calls s' = calls s @ [(url, enhancedInit init (Some sid)), (url, retryInit init)]
             \<and> enhancedInit init (Some sid)
                 = init\<lparr>init_headers := (init_headers init)(''x-synpatico-accept-id'' \<mapsto> sid)\<rparr>
             \<and> retryInit init
                 = init\<lparr>init_headers := (init_headers init)(''x-synpatico-accept-id'' := None)\<rparr>
             \<and> init_method (retryInit init) = init_method init
             \<and> init_other (retryInit init) = init_other init
             \<and> (\<forall>n. toLowerCase n \<noteq> ''x-synpatico-accept-id'' \<longrightarrow>
                    headers_get (init_headers (retryInit init)) n = headers_get (init_headers init) n)
             \<and> headers_get (init_headers (enhancedInit init (Some sid))) ''X-Synpatico-Accept-ID'' = Some sid
             \<and> \<not> headers_has (init_headers (retryInit init)) ''X-Synpatico-Accept-ID''
             \<and> structures s' = structures s
             \<and> requestToStructureId s' = requestToStructureId s
             \<and> knownSynpaticoOrigins s' = knownSynpaticoOrigins s
             \<and> filter processingEvent (events s') = filter processingEvent (events s)"
proof -
  from synpaticoFetch_first_call[OF target quiet, of P s init resp] first hinted
  obtain s3 where cl: "synpaticoFetch P opts url init s = classifyResponse P opts url init True resp s3"
    and fr: "structures s3 = structures s" "requestToStructureId s3 = requestToStructureId s"
      "knownSynpaticoOrigins s3 = knownSynpaticoOrigins s"
      "calls s3 = calls s @ [(url, enhancedInit init (Some sid))]"
      "filter processingEvent (events s3) = filter processingEvent (events s)"
    by auto
  obtain r s' where run: "synpaticoFetch P opts url init s = (r, s')"
    by (cases "synpaticoFetch P opts url init s") auto
  have "callOriginalFetch P url (retryInit init) s3 = (r, s')"
    using cl run conflict by (simp add: classifyResponse_def)
  from callOriginalFetch_frame[OF this] fr run show ?thesis
    by (simp add: enhancedInit_def retryInit_def headers_get_def headers_has_def headers_set_def
                  headers_delete_def toLowerCase_accept_id)
qed

theorem conflict_retry_once_witness:
  "isTarget demoOpts demoUrl
   \<and> onErrorReturns (lifecycle demoOpts)
   \<and> structureIdHint (demoPlatform [conflictResp, okResp]) hintedState demoUrl richInit = Some ''S:ok''
   \<and> originalFetch (demoPlatform [conflictResp, okResp]) (calls hintedState) demoUrl
        (enhancedInit richInit (Some ''S:ok'')) = Some conflictResp
   \<and> resp_status conflictResp = 409
   \<and> fst (synpaticoFetch (demoPlatform [conflictResp, okResp]) demoOpts demoUrl richInit hintedState) = Inr okResp
   \<and> calls (snd (synpaticoFetch (demoPlatform [conflictResp, okResp]) demoOpts demoUrl richInit hintedState))
       = [(demoUrl, richInit\<lparr>init_headers := (init_headers richInit)(''x-synpatico-accept-id'' \<mapsto> ''S:ok'')\<rparr>),
          (demoUrl, richInit)]
   \<and> richInit \<noteq> emptyInit
   \<and> toLowerCase ''Authorization'' \<noteq> ''x-synpatico-accept-id''
   \<and> headers_get (init_headers (retryInit richInit)) ''Authorization'' = Some ''Bearer t''"
proof -
  let ?P = "demoPlatform [conflictResp, okResp]"
  have h1: "isTarget demoOpts demoUrl" by (simp add: isTarget_def demoOpts_def)
  have h2: "onErrorReturns (lifecycle demoOpts)" by (simp add: onErrorReturns_def demoOpts_def demoHooks_def)
  have h3: "structureIdHint ?P hintedState demoUrl richInit = Some ''S:ok''"
    by (simp add: core_defs demo_defs richInit_def)
  have h4: "originalFetch ?P (calls hintedState) demoUrl
        (enhancedInit richInit (Some ''S:ok'')) = Some conflictResp"
    by (simp add: demo_defs)
  have h5: "resp_status conflictResp = 409" by (simp add: conflictResp_def)
  have h6: "toLowerCase ''Authorization'' \<noteq> ''x-synpatico-accept-id''"
    by (simp add: toLowerCase_def upperChars_def lowerChars_def)
  have same: "richInit\<lparr>init_headers := (init_headers richInit)(''x-synpatico-accept-id'' := None)\<rparr> = richInit"
    by (simp add: richInit_def)
  have ne: "richInit \<noteq> emptyInit" by (simp add: richInit_def emptyInit_def)
  have au: "headers_get (init_headers richInit) ''Authorization'' = Some ''Bearer t''"
    by (simp add: richInit_def headers_get_def toLowerCase_def upperChars_def lowerChars_def)
  have second: "originalFetch ?P (calls hintedState @ [(demoUrl, enhancedInit richInit (Some ''S:ok''))])
        demoUrl (retryInit richInit) = Some okResp"
    by (simp add: demo_defs)
  obtain r s' where run: "synpaticoFetch ?P demoOpts demoUrl richInit hintedState = (r, s')"
    by (cases "synpaticoFetch ?P demoOpts demoUrl richInit hintedState") auto
  note th = conflict_retry_once[OF h1 h2 h3 h4 h5, unfolded run prod.case]
  have r: "r = Inr okResp" using conjunct1[OF th] second by simp
  have c: "calls s' = calls hintedState @ [(demoUrl, enhancedInit richInit (Some ''S:ok'')),
                                            (demoUrl, retryInit richInit)]"
    using th by blast
  have e: "enhancedInit richInit (Some ''S:ok'')
             = richInit\<lparr>init_headers := (init_headers richInit)(''x-synpatico-accept-id'' \<mapsto> ''S:ok'')\<rparr>"
    using th by blast
  have t: "retryInit richInit
             = richInit\<lparr>init_headers := (init_headers richInit)(''x-synpatico-accept-id'' := None)\<rparr>"
    using th by blast
  have o: "\<forall>n. toLowerCase n \<noteq> ''x-synpatico-accept-id'' \<longrightarrow>
              headers_get (init_headers (retryInit richInit)) n = headers_get (init_headers richInit) n"
    using th by blast
  have cs: "calls hintedState = []" by (simp add: hintedState_def)
  have au': "headers_get (init_headers (retryInit richInit)) ''Authorization'' = Some ''Bearer t''"
    using o h6 au by simp
  show ?thesis
    using h1 h2 h3 h4 h5 h6 ne au' run r c cs
    unfolding e t same by simp
qed

lemma markOrigin_frame [simp]:
  "structures (markOrigin P url s) = structures s"
  "requestToStructureId (markOrigin P url s) = requestToStructureId s"
  "calls (markOrigin P url s) = calls s"
  "events (markOrigin P url s) = events s"
  by (simp_all add: markOrigin_def split: option.splits)

lemma applyTransform_frame:
  "applyTransform L e v s = (r, s') \<Longrightarrow>
     structures s' = structures s \<and> requestToStructureId s' = requestToStructureId s \<and>
     knownSynpaticoOrigins s' = knownSynpaticoOrigins s \<and> calls s' = calls s \<and>
     (events s' = events s \<or> events s' = events s @ [e])"
  by (auto simp: applyTransform_def split: option.splits)

lemma learn_result:
  assumes "JSON_parse P (resp_body resp) = Some data" and "isPlainObject data"
    and "transformDecoded L = None"
  shows "case learnFromJsonResponse P L resp url s of
           (r, s') \<Rightarrow>
             (r = Inr resp \<or> r = Inr (rebuildResponse P resp data)) \<and>
             structures s' = (structures s)(sd_id (createStructureDefinition P data) \<mapsto> createStructureDefinition P data) \<and>
             requestToStructureId s' = (requestToStructureId s)(url \<mapsto> sd_id (createStructureDefinition P data)) \<and>
             knownSynpaticoOrigins s' = knownSynpaticoOrigins s \<and> calls s' = calls s"
  using assms
  by (auto simp: learnFromJsonResponse_def Let_def notify_def applyTransform_def
           split: prod.splits bool.splits option.splits)

section \<open>Responses without the agent marker\<close>

text \<open>
  C3, as the code has it. On a target URL, a first response that lacks the agent marker
  header is returned unmodified, whatever its content type and whatever its status,
  unless it is a 409 answer to a call on which the negotiation header was attached:
  exactly one call is logged, the registry and the known origins are unchanged, and no
  learn, decode or transform hook is called. The \<open>onError\<close> hook is taken to return.
\<close>

theorem passthrough_without_marker:
  assumes target: "isTarget opts url"
    and quiet: "onErrorReturns (lifecycle opts)"
    and first: "originalFetch P (calls s) url (enhancedInit init (structureIdHint P s url init)) = Some resp"
    and nomarker: "\<not> headers_has (resp_headers resp) ''X-Synpatico-Agent''"
    and noretry: "\<not> (resp_status resp = 409 \<and> structureIdHint P s url init \<noteq> None)"
  shows "case synpaticoFetch P opts url init s of
           (r, s') \<Rightarrow>
             r = Inr resp
             \<and> calls s' = calls s @ [(url, enhancedInit init (structureIdHint P s url init))]
             \<and> structures s' = structures s
             \<and> requestToStructureId s' = requestToStructureId s
             \<and> knownSynpaticoOrigins s' = knownSynpaticoOrigins s
             \<and> filter processingEvent (events s') = filter processingEvent (events s)"
proof -
  from synpaticoFetch_first_call[OF target quiet first]
  obtain s3 where cl: "synpaticoFetch P opts url init s =
        classifyResponse P opts url init (structureIdHint P s url init \<noteq> None) resp s3"
    and fr: "structures s3 = structures s" "requestToStructureId s3 = requestToStructureId s"
      "knownSynpaticoOrigins s3 = knownSynpaticoOrigins s"
      "calls s3 = calls s @ [(url, enhancedInit init (structureIdHint P s url init))]"
      "filter processingEvent (events s3) = filter processingEvent (events s)"
    by auto
  have "classifyResponse P opts url init (structureIdHint P s url init \<noteq> None) resp s3 = (Inr resp, s3)"
    using nomarker noretry by (auto simp: classifyResponse_def)
  with cl fr show ?thesis by simp
qed

theorem passthrough_without_marker_witness:
  "isTarget demoOpts demoUrl
   \<and> onErrorReturns (lifecycle demoOpts)
   \<and> originalFetch (demoPlatform [plainResp]) (calls createRegistry) demoUrl
        (enhancedInit emptyInit (structureIdHint (demoPlatform [plainResp]) createRegistry demoUrl emptyInit))
        = Some plainResp
   \<and> \<not> headers_has (resp_headers plainResp) ''X-Synpatico-Agent''
   \<and> \<not> (resp_status plainResp = 409
          \<and> structureIdHint (demoPlatform [plainResp]) createRegistry demoUrl emptyInit \<noteq> None)
   \<and> fst (synpaticoFetch (demoPlatform [plainResp]) demoOpts demoUrl emptyInit createRegistry) = Inr plainResp
   \<and> requestToStructureId (snd (synpaticoFetch (demoPlatform [plainResp]) demoOpts demoUrl emptyInit createRegistry))
       = Map.empty"
proof -
  let ?P = "demoPlatform [plainResp]"
  have h1: "isTarget demoOpts demoUrl" by (simp add: isTarget_def demoOpts_def)
  have h2: "onErrorReturns (lifecycle demoOpts)" by (simp add: onErrorReturns_def demoOpts_def demoHooks_def)
  have h3: "originalFetch ?P (calls createRegistry) demoUrl
        (enhancedInit emptyInit (structureIdHint ?P createRegistry demoUrl emptyInit)) = Some plainResp"
    by (simp add: demo_defs createRegistry_def)
  have h4: "\<not> headers_has (resp_headers plainResp) ''X-Synpatico-Agent''"
    by (simp add: plainResp_def core_defs)
  have h5: "\<not> (resp_status plainResp = 409 \<and> structureIdHint ?P createRegistry demoUrl emptyInit \<noteq> None)"
    by (simp add: plainResp_def)
  from passthrough_without_marker[OF h1 h2 h3 h4 h5] h1 h2 h3 h4 h5 show ?thesis
    by (simp add: createRegistry_def split: prod.splits)
qed

text \<open>
  The check for a 409 answer to a hinted call (line 188) precedes the check for the
  marker (line 195): such an answer is retried even when it lacks the marker, and the
  caller gets the retry's response instead.
\<close>

theorem passthrough_any_status_counterexample:
  "\<not> headers_has (resp_headers bareConflictResp) ''X-Synpatico-Agent''
   \<and> originalFetch (demoPlatform [bareConflictResp, okResp]) (calls hintedState) demoUrl
        (enhancedInit emptyInit (structureIdHint (demoPlatform [bareConflictResp, okResp]) hintedState demoUrl emptyInit))
        = Some bareConflictResp
   \<and> fst (synpaticoFetch (demoPlatform [bareConflictResp, okResp]) demoOpts demoUrl emptyInit hintedState)
       = Inr okResp
   \<and> okResp \<noteq> bareConflictResp
   \<and> calls (snd (synpaticoFetch (demoPlatform [bareConflictResp, okResp]) demoOpts demoUrl emptyInit hintedState))
       = [(demoUrl, enhancedInit emptyInit (Some ''S:ok'')), (demoUrl, retryInit emptyInit)]"
  by (simp add: core_defs demo_defs bareConflictResp_def okResp_def)

lemma learn_result_exact:
  assumes "JSON_parse P (resp_body resp) = Some data" and "isPlainObject data"
    and "transformDecoded L = None"
  shows "fst (learnFromJsonResponse P L resp url s) =
           Inr (if hookReturns (onLearnedStructure L)
                     (LearnedStructure url (sd_id (createStructureDefinition P data)))
                then rebuildResponse P resp data else resp)"
  using assms
  by (auto simp: learnFromJsonResponse_def Let_def notify_def applyTransform_def hookReturns_def
           split: prod.splits bool.splits option.splits)

section \<open>Learning from a marked JSON response\<close>

text \<open>
  C1, as the code has it. On a target URL, let the first response carry the agent marker,
  not be a 409 answer to a call on which the negotiation header was attached, have a
  content type that names plain JSON and not the packet type, and a body that parses to a
  plain object; let no \<open>transformDecoded\<close> hook be configured. Then fetch returns the
  response rebuilt around the serialization of the parsed value (or the original
  response, when the \<open>onLearnedStructure\<close> hook throws), so its body is the original
  body or \<open>JSON.stringify\<close> of the value: it parses to the same value whenever
  \<open>JSON.stringify\<close> followed by \<open>JSON.parse\<close> gives the value back. Afterwards
  \<open>requestToStructureId\<close> is the old map with the call's URL string mapped to the id
  the codec computed, the definition being stored under that id. The \<open>onError\<close> hook
  is taken to return.
\<close>

theorem learn_roundtrip:
  assumes target: "isTarget opts url"
    and quiet: "onErrorReturns (lifecycle opts)"
    and notransform: "transformDecoded (lifecycle opts) = None"
    and first: "originalFetch P (calls s) url (enhancedInit init (structureIdHint P s url init)) = Some resp"
    and noretry: "\<not> (resp_status resp = 409 \<and> structureIdHint P s url init \<noteq> None)"
    and marker: "headers_has (resp_headers resp) ''X-Synpatico-Agent''"
    and json: "str_includes (contentType resp) ''application/json''"
    and notpacket: "\<not> str_includes (contentType resp) ''application/synpatico-packet+json''"
    and parse: "JSON_parse P (resp_body resp) = Some data"
    and plain: "isPlainObject data"
  shows "case synpaticoFetch P opts url init s of
           (r, s') \<Rightarrow>
             r = Inr (if hookReturns (onLearnedStructure (lifecycle opts))
                          (LearnedStructure url (sd_id (createStructureDefinition P data)))
                      then rebuildResponse P resp data else resp)
             \<and> (case r of
                   Inl f \<Rightarrow> False
                 | Inr resp' \<Rightarrow>
                     resp_body resp' = resp_body resp \<or> resp_body resp' = JSON_stringify P data)
             \<and> (JSON_parse P (JSON_stringify P data) = Some data \<longrightarrow>
                  (case r of Inl f \<Rightarrow> False | Inr resp' \<Rightarrow> JSON_parse P (resp_body resp') = Some data))
             \<and> requestToStructureId s' =
                 (requestToStructureId s)(url \<mapsto> sd_id (createStructureDefinition P data))
             \<and> structures s' =
                 (structures s)(sd_id (createStructureDefinition P data) \<mapsto> createStructureDefinition P data)"
proof -
  from synpaticoFetch_first_call[OF target quiet first]
  obtain s3 where cl: "synpaticoFetch P opts url init s =
        classifyResponse P opts url init (structureIdHint P s url init \<noteq> None) resp s3"
    and fr: "structures s3 = structures s" "requestToStructureId s3 = requestToStructureId s"
    by auto
  have "classifyResponse P opts url init (structureIdHint P s url init \<noteq> None) resp s3 =
          learnFromJsonResponse P (lifecycle opts) resp url (markOrigin P url s3)"
    using noretry marker json notpacket by (auto simp: classifyResponse_def Let_def)
  with cl have eq: "synpaticoFetch P opts url init s =
      learnFromJsonResponse P (lifecycle opts) resp url (markOrigin P url s3)" by simp
  from learn_result[OF parse plain notransform, where url = url and s = "markOrigin P url s3"]
       learn_result_exact[OF parse plain notransform, where url = url and s = "markOrigin P url s3"]
       fr parse
  show ?thesis unfolding eq
    by (auto simp: rebuildResponse_def split: prod.splits)
qed

theorem learn_roundtrip_witness:
  "isTarget demoOpts demoUrl
   \<and> onErrorReturns (lifecycle demoOpts)
   \<and> transformDecoded (lifecycle demoOpts) = None
   \<and> originalFetch (demoPlatform [learnResp]) (calls createRegistry) demoUrl
        (enhancedInit emptyInit (structureIdHint (demoPlatform [learnResp]) createRegistry demoUrl emptyInit))
        = Some learnResp
   \<and> \<not> (resp_status learnResp = 409
          \<and> structureIdHint (demoPlatform [learnResp]) createRegistry demoUrl emptyInit \<noteq> None)
   \<and> headers_has (resp_headers learnResp) ''X-Synpatico-Agent''
   \<and> str_includes (contentType learnResp) ''application/json''
   \<and> \<not> str_includes (contentType learnResp) ''application/synpatico-packet+json''
   \<and> JSON_parse (demoPlatform [learnResp]) (resp_body learnResp) = Some (JObj [(''a'', JNum 1)])
   \<and> isPlainObject (JObj [(''a'', JNum 1)])
   \<and> JSON_parse (demoPlatform [learnResp])
        (JSON_stringify (demoPlatform [learnResp]) (JObj [(''a'', JNum 1)])) = Some (JObj [(''a'', JNum 1)])
   \<and> fst (synpaticoFetch (demoPlatform [learnResp]) demoOpts demoUrl emptyInit createRegistry)
       = Inr (rebuildResponse (demoPlatform [learnResp]) learnResp (JObj [(''a'', JNum 1)]))
   \<and> JSON_parse (demoPlatform [learnResp])
        (resp_body (rebuildResponse (demoPlatform [learnResp]) learnResp (JObj [(''a'', JNum 1)])))
       = Some (JObj [(''a'', JNum 1)])
   \<and> requestToStructureId
        (snd (synpaticoFetch (demoPlatform [learnResp]) demoOpts demoUrl emptyInit createRegistry))
       = [demoUrl \<mapsto> ''S:a'']"
proof -
  let ?P = "demoPlatform [learnResp]"
  let ?d = "JObj [(''a'', JNum 1)]"
  have h1: "isTarget demoOpts demoUrl" by (simp add: isTarget_def demoOpts_def)
  have h2: "onErrorReturns (lifecycle demoOpts)" by (simp add: onErrorReturns_def demoOpts_def demoHooks_def)
  have h3: "transformDecoded (lifecycle demoOpts) = None" by (simp add: demoOpts_def demoHooks_def)
  have h4: "originalFetch ?P (calls createRegistry) demoUrl
        (enhancedInit emptyInit (structureIdHint ?P createRegistry demoUrl emptyInit)) = Some learnResp"
    by (simp add: demo_defs createRegistry_def)
  have h5: "\<not> (resp_status learnResp = 409 \<and> structureIdHint ?P createRegistry demoUrl emptyInit \<noteq> None)"
    by (simp add: learnResp_def)
  have h6: "headers_has (resp_headers learnResp) ''X-Synpatico-Agent''"
    by (simp add: learnResp_def core_defs demo_defs)
  have h7: "str_includes (contentType learnResp) ''application/json''"
    by (simp add: learnResp_def core_defs demo_defs)
  have h8: "\<not> str_includes (contentType learnResp) ''application/synpatico-packet+json''"
    by (simp add: learnResp_def core_defs demo_defs)
  have h9: "JSON_parse ?P (resp_body learnResp) = Some ?d"
    by (simp add: learnResp_def demo_defs)
  have h10: "isPlainObject ?d" by (simp add: isPlainObject_def)
  have h11: "JSON_parse ?P (JSON_stringify ?P ?d) = Some ?d" by (simp add: demo_defs)
  have hk: "hookReturns (onLearnedStructure (lifecycle demoOpts))
              (LearnedStructure demoUrl (sd_id (createStructureDefinition ?P ?d)))"
    by (simp add: hookReturns_def demoOpts_def demoHooks_def)
  have id: "sd_id (createStructureDefinition ?P ?d) = ''S:a''" by (simp add: demo_defs)
  have reg: "requestToStructureId createRegistry = Map.empty" by (simp add: createRegistry_def)
  obtain r s' where run: "synpaticoFetch ?P demoOpts demoUrl emptyInit createRegistry = (r, s')"
    by (cases "synpaticoFetch ?P demoOpts demoUrl emptyInit createRegistry") auto
  note th = learn_roundtrip[OF h1 h2 h3 h4 h5 h6 h7 h8 h9 h10, unfolded run prod.case]
  have r: "r = Inr (rebuildResponse ?P learnResp ?d)" using conjunct1[OF th] hk by simp
  have b: "JSON_parse ?P (resp_body (rebuildResponse ?P learnResp ?d)) = Some ?d"
    using th h11 r by auto
  have g: "requestToStructureId s' = [demoUrl \<mapsto> ''S:a'']" using th id reg by auto
  show ?thesis using h1 h2 h3 h4 h5 h6 h7 h8 h9 h10 h11 run r b g by simp
qed

text \<open>
  Two ways the claim fails as stated. A 409 answer to a hinted call that carries the
  marker and a plain JSON object is not learned from: the call is retried, the caller
  gets the retry's response with another body, and the URL stays mapped to the id learned
  before. And a learned body is not always given back deep-equal: a numeral beyond the
  range of a double parses to an infinity, which is serialized as \<open>null\<close>, so the body
  \<open>{"a":1e400}\<close> comes back as \<open>{"a":null}\<close>.
\<close>

theorem learn_every_marked_json_counterexample:
  "headers_has (resp_headers conflictResp) ''X-Synpatico-Agent''
   \<and> str_includes (contentType conflictResp) ''application/json''
   \<and> \<not> str_includes (contentType conflictResp) ''application/synpatico-packet+json''
   \<and> JSON_parse (demoPlatform [conflictResp, okResp]) (resp_body conflictResp) = Some (JObj [(''a'', JNum 1)])
   \<and> isPlainObject (JObj [(''a'', JNum 1)])
   \<and> transformDecoded (lifecycle demoOpts) = None
   \<and> originalFetch (demoPlatform [conflictResp, okResp]) (calls hintedState) demoUrl
        (enhancedInit emptyInit (structureIdHint (demoPlatform [conflictResp, okResp]) hintedState demoUrl emptyInit))
        = Some conflictResp
   \<and> fst (synpaticoFetch (demoPlatform [conflictResp, okResp]) demoOpts demoUrl emptyInit hintedState)
       = Inr okResp
   \<and> JSON_parse (demoPlatform [conflictResp, okResp]) (resp_body okResp) \<noteq> Some (JObj [(''a'', JNum 1)])
   \<and> requestToStructureId
        (snd (synpaticoFetch (demoPlatform [conflictResp, okResp]) demoOpts demoUrl emptyInit hintedState)) demoUrl
       \<noteq> Some (sd_id (createStructureDefinition (demoPlatform [conflictResp, okResp]) (JObj [(''a'', JNum 1)])))
   \<and> headers_has (resp_headers overflowResp) ''X-Synpatico-Agent''
   \<and> str_includes (contentType overflowResp) ''application/json''
   \<and> \<not> str_includes (contentType overflowResp) ''application/synpatico-packet+json''
   \<and> JSON_parse (demoPlatform [overflowResp]) (resp_body overflowResp) = Some (JObj [(''a'', JInfinity True)])
   \<and> isPlainObject (JObj [(''a'', JInfinity True)])
   \<and> originalFetch (demoPlatform [overflowResp]) (calls createRegistry) demoUrl
        (enhancedInit emptyInit (structureIdHint (demoPlatform [overflowResp]) createRegistry demoUrl emptyInit))
        = Some overflowResp
   \<and> (case fst (synpaticoFetch (demoPlatform [overflowResp]) demoOpts demoUrl emptyInit createRegistry) of
         Inl f \<Rightarrow> False
       | Inr resp' \<Rightarrow>
           JSON_parse (demoPlatform [overflowResp]) (resp_body resp') = Some (JObj [(''a'', JNull)]))
   \<and> JObj [(''a'', JNull)] \<noteq> JObj [(''a'', JInfinity True)]"
  by (simp add: core_defs demo_defs conflictResp_def okResp_def overflowResp_def createRegistry_def)

section \<open>Calls issued by the decode and learn paths\<close>

lemma decodeFailed_calls:
  "decodeFailed P L url s = (r, s') \<Longrightarrow>
     calls s' = calls s \<or> calls s' = calls s @ [(url, emptyInit)]"
  by (auto simp: decodeFailed_def split: prod.splits option.splits
           dest!: reportError_frame callOriginalFetch_frame)

lemma handle_calls:
  "handleOptimizedPacketResponse P L resp url s = (r, s') \<Longrightarrow>
     calls s' = calls s \<or> calls s' = calls s @ [(url, emptyInit)]"
  unfolding handleOptimizedPacketResponse_def Let_def
  by (auto split: option.splits sum.splits prod.splits bool.splits
           dest!: decodeFailed_calls callOriginalFetch_frame notify_frame applyTransform_frame)

lemma learn_calls:
  "learnFromJsonResponse P L resp url s = (r, s') \<Longrightarrow> calls s' = calls s"
  unfolding learnFromJsonResponse_def Let_def
  by (auto split: option.splits prod.splits bool.splits if_splits
           dest!: notify_frame applyTransform_frame)

lemma classify_unhinted_calls:
  "classifyResponse P opts url init False resp s = (r, s') \<Longrightarrow>
     calls s' = calls s \<or> calls s' = calls s @ [(url, emptyInit)]"
  unfolding classifyResponse_def Let_def
  by (auto split: if_splits dest!: handle_calls learn_calls)

lemma non_get_hint:
  "requestMethod init \<noteq> ''GET'' \<Longrightarrow> structureIdHint P s url init = None"
  by (simp add: structureIdHint_def acceptIdHint_def split: option.splits)

section \<open>Calls whose method is not GET\<close>

text \<open>
  C4, as the code has it. For a call whose method is not GET no hint is looked up, so the
  negotiation header is never attached and the 409 retry cannot fire: whatever the
  options, the hooks, the network and the response, the calls issued are none (a hook
  failed first), or the caller's own init sent once, or that followed by the decode
  path's reissue with an empty init. Nothing is said here about the response: it is
  classified as for a GET call.
\<close>

theorem non_get_sent_unhinted:
  assumes nonget: "requestMethod init \<noteq> ''GET''"
  shows "structureIdHint P s url init = None
         \<and> (case synpaticoFetch P opts url init s of
              (r, s') \<Rightarrow>
                calls s' = calls s
                \<or> calls s' = calls s @ [(url, init)]
                \<or> calls s' = calls s @ [(url, init), (url, emptyInit)])"
proof -
  have hint: "structureIdHint P s url init = None" using nonget by (rule non_get_hint)
  obtain r s' where run: "synpaticoFetch P opts url init s = (r, s')"
    by (cases "synpaticoFetch P opts url init s") auto
  have "calls s' = calls s \<or> calls s' = calls s @ [(url, init)]
        \<or> calls s' = calls s @ [(url, init), (url, emptyInit)]"
  proof (cases "isTarget opts url")
    case False
    then have "callOriginalFetch P url init s = (r, s')"
      using run by (auto simp: synpaticoFetch_def isTarget_def Let_def split: option.splits)
    from callOriginalFetch_frame[OF this] show ?thesis by simp
  next
    case True
    obtain r1 s1 where h1: "guardedHook opts (beforeRequest (lifecycle opts))
         (BeforeRequest url (requestMethod init) (init_headers init) init False
            (acceptIdHint P s url (requestMethod init = ''GET''))) Request url s = (r1, s1)"
      by (cases "guardedHook opts (beforeRequest (lifecycle opts))
         (BeforeRequest url (requestMethod init) (init_headers init) init False
            (acceptIdHint P s url (requestMethod init = ''GET''))) Request url s") auto
    note f1 = guardedHook_frame[OF h1]
    show ?thesis
    proof (cases r1)
      case (Some f)
      then have "s' = s1" using run True h1 hint
        by (auto simp: synpaticoFetch_def isTarget_def Let_def enhancedInit_def split: option.splits)
      with f1 show ?thesis by simp
    next
      case None
      obtain r2 s2 where c2: "callOriginalFetch P url init s1 = (r2, s2)"
        by (cases "callOriginalFetch P url init s1") auto
      note f2 = callOriginalFetch_frame[OF c2]
      show ?thesis
      proof (cases r2)
        case (Inl f)
        then have "s' = s2" using run True h1 hint None c2
          by (auto simp: synpaticoFetch_def isTarget_def Let_def enhancedInit_def split: option.splits)
        with f1 f2 show ?thesis by simp
      next
        case (Inr resp)
        obtain r3 s3 where h3: "guardedHook opts (afterResponse (lifecycle opts))
             (AfterResponse url (requestMethod init) resp False) Response url s2 = (r3, s3)"
          by (cases "guardedHook opts (afterResponse (lifecycle opts))
             (AfterResponse url (requestMethod init) resp False) Response url s2") auto
        note f3 = guardedHook_frame[OF h3]
        show ?thesis
        proof (cases r3)
          case (Some f)
          then have "s' = s3" using run True h1 hint None c2 Inr h3
            by (auto simp: synpaticoFetch_def isTarget_def Let_def enhancedInit_def split: option.splits)
          with f1 f2 f3 show ?thesis by simp
        next
          case None3: None
          have "classifyResponse P opts url init False resp s3 = (r, s')"
            using run True h1 hint None c2 Inr h3 None3
            by (auto simp: synpaticoFetch_def isTarget_def Let_def enhancedInit_def split: option.splits)
          from classify_unhinted_calls[OF this] f1 f2 f3 show ?thesis by auto
        qed
      qed
    qed
  qed
  with hint run show ?thesis by simp
qed

theorem non_get_sent_unhinted_witness:
  "requestMethod postInit \<noteq> ''GET''
   \<and> structureIdHint (demoPlatform [okResp]) hintedState demoUrl postInit = None
   \<and> calls (snd (synpaticoFetch (demoPlatform [okResp]) demoOpts demoUrl postInit hintedState))
       = [(demoUrl, postInit)]"
proof -
  have h1: "requestMethod postInit \<noteq> ''GET''"
    by (simp add: requestMethod_def postInit_def toUpperCase_def upperChars_def lowerChars_def)
  from non_get_sent_unhinted[OF h1, of "demoPlatform [okResp]" hintedState demoUrl demoOpts] h1
  show ?thesis
    by (simp add: core_defs demo_defs postInit_def okResp_def)
qed

text \<open>
  The method gates the hint only. A POST answered with a marked plain JSON object is
  learned from like a GET: the origin is marked, the URL is registered, and the caller
  gets a rebuilt response, not the original one.
\<close>

theorem non_get_passed_through_counterexample:
  "requestMethod postInit \<noteq> ''GET''
   \<and> requestToStructureId createRegistry demoUrl = None
   \<and> requestToStructureId
        (snd (synpaticoFetch (demoPlatform [learnResp]) demoOpts demoUrl postInit createRegistry)) demoUrl
       = Some ''S:a''
   \<and> knownSynpaticoOrigins
        (snd (synpaticoFetch (demoPlatform [learnResp]) demoOpts demoUrl postInit createRegistry))
       = {''https://a.io''}
   \<and> fst (synpaticoFetch (demoPlatform [learnResp]) demoOpts demoUrl postInit createRegistry)
       \<noteq> Inr learnResp"
  by (simp add: core_defs demo_defs postInit_def learnResp_def createRegistry_def)

section \<open>The decode path's fallback\<close>

text \<open>
  C6, evaluated. A hinted GET with an Authorization header is answered with a packet
  whose structure id is not in the registry, or with a packet that is not JSON. In both
  cases the fallback call is issued with an empty init (lines 57, 61 and 100 pass
  \<open>{}\<close>), so the caller's header is gone; the 409 retry of the same function keeps the
  caller's init.
\<close>

theorem packet_fallback_drops_init:
  "fst (synpaticoFetch (demoPlatform [unknownPacketResp, okResp]) demoOpts demoUrl authInit learnedState)
     = Inr okResp
   \<and> calls (snd (synpaticoFetch (demoPlatform [unknownPacketResp, okResp]) demoOpts demoUrl authInit learnedState))
       = [(demoUrl, enhancedInit authInit (Some ''S:a'')), (demoUrl, emptyInit)]
   \<and> fst (synpaticoFetch (demoPlatform [brokenPacketResp, okResp]) demoOpts demoUrl authInit learnedState)
     = Inr okResp
   \<and> calls (snd (synpaticoFetch (demoPlatform [brokenPacketResp, okResp]) demoOpts demoUrl authInit learnedState))
       = [(demoUrl, enhancedInit authInit (Some ''S:a'')), (demoUrl, emptyInit)]
   \<and> headers_get (init_headers authInit) ''Authorization'' = Some ''Bearer t''
   \<and> headers_get (init_headers emptyInit) ''Authorization'' = None
   \<and> retryInit authInit \<noteq> emptyInit"
  by (simp add: core_defs demo_defs authInit_def unknownPacketResp_def brokenPacketResp_def okResp_def)

section \<open>The rebuilt response\<close>

lemma toLowerCase_content_type: "toLowerCase ''Content-Type'' = ''content-type''"
  by (simp add: toLowerCase_def upperChars_def lowerChars_def)

lemma rebuildResponse_fields:
  "resp_status (rebuildResponse P resp v) = resp_status resp"
  "resp_statusText (rebuildResponse P resp v) = resp_statusText resp"
  "resp_body (rebuildResponse P resp v) = JSON_stringify P v"
  "headers_get (resp_headers (rebuildResponse P resp v)) ''Content-Type'' = Some ''application/json''"
  "toLowerCase n \<noteq> ''content-type'' \<Longrightarrow>
     headers_get (resp_headers (rebuildResponse P resp v)) n = headers_get (resp_headers resp) n"
  by (simp_all add: rebuildResponse_def headers_get_def headers_set_def toLowerCase_content_type)

lemma learn_rebuilds:
  assumes "JSON_parse P (resp_body resp) = Some data" and "isPlainObject data"
    and "hookReturns (onLearnedStructure L)
           (LearnedStructure url (sd_id (createStructureDefinition P data)))"
    and "transformResult L
           (TransformDecoded url (sd_id (createStructureDefinition P data)) False None None data) data
         = Some out"
  shows "fst (learnFromJsonResponse P L resp url s) = Inr (rebuildResponse P resp out)"
  using assms
  by (auto simp: learnFromJsonResponse_def Let_def notify_def applyTransform_def hookReturns_def
                 transformResult_def split: prod.splits bool.splits option.splits)

lemma decode_rebuilds:
  assumes "JSON_parse P (resp_body resp) = Some packet"
    and "packetStructureId packet = Inr (Some sid)"
    and "structures s sid = Some d"
    and "decode P packet d = Some decoded"
    and "hookReturns (onPacketDecoded L)
           (PacketDecoded url sid (originalSizeOf P resp) (byteLen (resp_body resp)))"
    and "transformResult L
           (TransformDecoded url sid True (originalSizeOf P resp) (Some (byteLen (resp_body resp))) decoded)
           decoded = Some out"
  shows "fst (handleOptimizedPacketResponse P L resp url s) = Inr (rebuildResponse P resp out)"
  using assms
  by (auto simp: handleOptimizedPacketResponse_def Let_def notify_def applyTransform_def hookReturns_def
                 transformResult_def split: prod.splits bool.splits option.splits)

text \<open>
  C10. When the learn path succeeds (the body parses to a plain object, the
  \<open>onLearnedStructure\<close> hook returns and the optional transform yields \<open>out\<close>) and when
  the decode path succeeds (the packet parses, its structure is registered, the codec
  decodes it, the \<open>onPacketDecoded\<close> hook returns and the optional transform yields
  \<open>out'\<close>), the result is a new response built from the original one and the value:
  status and status text are the original's, every header whose name is not Content-Type
  reads as in the original, Content-Type reads application/json, and the body is the
  serialization of the value, whatever the original bytes were.
\<close>

theorem response_rebuilt:
  "(JSON_parse P (resp_body resp) = Some data \<and> isPlainObject data
      \<and> hookReturns (onLearnedStructure L)
           (LearnedStructure url (sd_id (createStructureDefinition P data)))
      \<and> transformResult L
           (TransformDecoded url (sd_id (createStructureDefinition P data)) False None None data) data
         = Some out
    \<longrightarrow> fst (learnFromJsonResponse P L resp url s) = Inr (rebuildResponse P resp out))
   \<and> (JSON_parse P (resp_body resp) = Some packet \<and> packetStructureId packet = Inr (Some sid)
      \<and> structures s sid = Some d \<and> decode P packet d = Some decoded
      \<and> hookReturns (onPacketDecoded L)
           (PacketDecoded url sid (originalSizeOf P resp) (byteLen (resp_body resp)))
      \<and> transformResult L
           (TransformDecoded url sid True (originalSizeOf P resp) (Some (byteLen (resp_body resp))) decoded)
           decoded = Some out'
    \<longrightarrow> fst (handleOptimizedPacketResponse P L resp url s) = Inr (rebuildResponse P resp out'))
   \<and> resp_status (rebuildResponse P resp v) = resp_status resp
   \<and> resp_statusText (rebuildResponse P resp v) = resp_statusText resp
   \<and> (toLowerCase n \<noteq> ''content-type'' \<longrightarrow>
        headers_get (resp_headers (rebuildResponse P resp v)) n = headers_get (resp_headers resp) n)
   \<and> headers_get (resp_headers (rebuildResponse P resp v)) ''Content-Type'' = Some ''application/json''
   \<and> resp_body (rebuildResponse P resp v) = JSON_stringify P v"
  by (auto intro!: learn_rebuilds decode_rebuilds simp: rebuildResponse_fields)

theorem response_rebuilt_witness:
  "JSON_parse (demoPlatform []) (resp_body learnResp) = Some (JObj [(''a'', JNum 1)])
   \<and> isPlainObject (JObj [(''a'', JNum 1)])
   \<and> hookReturns (onLearnedStructure demoHooks)
        (LearnedStructure demoUrl (sd_id (createStructureDefinition (demoPlatform []) (JObj [(''a'', JNum 1)]))))
   \<and> transformResult demoHooks
        (TransformDecoded demoUrl (sd_id (createStructureDefinition (demoPlatform []) (JObj [(''a'', JNum 1)])))
           False None None (JObj [(''a'', JNum 1)])) (JObj [(''a'', JNum 1)])
      = Some (JObj [(''a'', JNum 1)])
   \<and> fst (learnFromJsonResponse (demoPlatform []) demoHooks learnResp demoUrl createRegistry)
      = Inr (rebuildResponse (demoPlatform []) learnResp (JObj [(''a'', JNum 1)]))
   \<and> JSON_parse (demoPlatform []) (resp_body packetResp)
      = Some (JObj [(''structureId'', JStr ''S:a''), (''values'', JArr [JNum 1])])
   \<and> packetStructureId (JObj [(''structureId'', JStr ''S:a''), (''values'', JArr [JNum 1])]) = Inr (Some ''S:a'')
   \<and> structures learnedState ''S:a'' = Some (demoCreate (JObj [(''a'', JNum 1)]))
   \<and> decode (demoPlatform []) (JObj [(''structureId'', JStr ''S:a''), (''values'', JArr [JNum 1])])
        (demoCreate (JObj [(''a'', JNum 1)])) = Some (JObj [(''a'', JNum 1)])
   \<and> fst (handleOptimizedPacketResponse (demoPlatform []) demoHooks packetResp demoUrl learnedState)
      = Inr (rebuildResponse (demoPlatform []) packetResp (JObj [(''a'', JNum 1)]))
   \<and> toLowerCase ''X-Synpatico-Agent'' \<noteq> ''content-type''
   \<and> headers_get (resp_headers (rebuildResponse (demoPlatform []) packetResp (JObj [(''a'', JNum 1)])))
        ''X-Synpatico-Agent'' = Some ''1''
   \<and> headers_get (resp_headers (rebuildResponse (demoPlatform []) packetResp (JObj [(''a'', JNum 1)])))
        ''Content-Type'' = Some ''application/json''
   \<and> resp_body (rebuildResponse (demoPlatform []) learnResp (JObj [(''a'', JNum 1)])) \<noteq> resp_body learnResp"
proof -
  let ?P = "demoPlatform []"
  let ?d = "JObj [(''a'', JNum 1)]"
  let ?pk = "JObj [(''structureId'', JStr ''S:a''), (''values'', JArr [JNum 1])]"
  have a1: "JSON_parse ?P (resp_body learnResp) = Some ?d" by (simp add: demo_defs learnResp_def)
  have a2: "isPlainObject ?d" by (simp add: isPlainObject_def)
  have a3: "hookReturns (onLearnedStructure demoHooks)
        (LearnedStructure demoUrl (sd_id (createStructureDefinition ?P ?d)))"
    by (simp add: hookReturns_def demoHooks_def)
  have a4: "transformResult demoHooks
        (TransformDecoded demoUrl (sd_id (createStructureDefinition ?P ?d)) False None None ?d) ?d = Some ?d"
    by (simp add: transformResult_def demoHooks_def)
  have b1: "JSON_parse ?P (resp_body packetResp) = Some ?pk" by (simp add: demo_defs packetResp_def)
  have b2: "packetStructureId ?pk = Inr (Some ''S:a'')" by simp
  have b3: "structures learnedState ''S:a'' = Some (demoCreate ?d)" by (simp add: learnedState_def)
  have b4: "decode ?P ?pk (demoCreate ?d) = Some ?d" by (simp add: demo_defs)
  have b5: "hookReturns (onPacketDecoded demoHooks)
           (PacketDecoded demoUrl ''S:a'' (originalSizeOf ?P packetResp) (byteLen (resp_body packetResp)))"
    by (simp add: hookReturns_def demoHooks_def)
  have b6: "transformResult demoHooks
           (TransformDecoded demoUrl ''S:a'' True (originalSizeOf ?P packetResp)
              (Some (byteLen (resp_body packetResp))) ?d) ?d = Some ?d"
    by (simp add: transformResult_def demoHooks_def)
  have c1: "toLowerCase ''X-Synpatico-Agent'' \<noteq> ''content-type''"
    by (simp add: toLowerCase_def upperChars_def lowerChars_def)
  have c2: "headers_get (resp_headers packetResp) ''X-Synpatico-Agent'' = Some ''1''"
    by (simp add: packetResp_def core_defs demo_defs)
  have c3: "resp_body (rebuildResponse ?P learnResp ?d) \<noteq> resp_body learnResp"
    by (simp add: rebuildResponse_def demo_defs learnResp_def)
  from response_rebuilt[where P = ?P and resp = learnResp and data = ?d and L = demoHooks
         and url = demoUrl and out = ?d and s = createRegistry]
  have l: "fst (learnFromJsonResponse ?P demoHooks learnResp demoUrl createRegistry)
      = Inr (rebuildResponse ?P learnResp ?d)"
    using a1 a2 a3 a4 by blast
  from response_rebuilt[where P = ?P and resp = packetResp and L = demoHooks and url = demoUrl
         and s = learnedState and packet = ?pk and sid = "''S:a''" and d = "demoCreate ?d"
         and decoded = ?d and out' = ?d and v = ?d and n = "''X-Synpatico-Agent''"]
  have p: "fst (handleOptimizedPacketResponse ?P demoHooks packetResp demoUrl learnedState)
      = Inr (rebuildResponse ?P packetResp ?d)"
    and q: "headers_get (resp_headers (rebuildResponse ?P packetResp ?d)) ''X-Synpatico-Agent''
              = headers_get (resp_headers packetResp) ''X-Synpatico-Agent''"
    and q2: "headers_get (resp_headers (rebuildResponse ?P packetResp ?d)) ''Content-Type'' = Some ''application/json''"
    using b1 b2 b3 b4 b5 b6 c1 by blast+
  show ?thesis using a1 a2 a3 a4 l b1 b2 b3 b4 p c1 c2 c3 q q2 by simp
qed

section \<open>Which recovered errors reach \<open>onError\<close>\<close>















section \<open>The key a learned structure is cached under\<close>

lemma learn_registry:
  assumes "JSON_parse P (resp_body resp) = Some data" and "isPlainObject data"
  shows "case learnFromJsonResponse P L resp url s of
           (r, s') \<Rightarrow>
             requestToStructureId s' =
               (requestToStructureId s)(url \<mapsto> sd_id (createStructureDefinition P data))
             \<and> knownSynpaticoOrigins s' = knownSynpaticoOrigins s"
  using assms
  by (auto simp: learnFromJsonResponse_def Let_def notify_def applyTransform_def
           split: prod.splits bool.splits option.splits)

text \<open>
  C5, as the code has it. In core.ts the key is the call's URL string itself: after a
  response to \<open>url\<close> has been learned from, \<open>url\<close> is mapped to the codec's id, the
  hint of every other URL string is what it was before, and a later GET to \<open>url\<close> with
  a known origin is given that id. A key made of origin and pathname, shared by inputs
  that differ in their query only, is what \<open>registryKey\<close> of the monkey patch computes.
\<close>

theorem request_key_is_url_string:
  assumes parse: "JSON_parse P (resp_body resp) = Some data"
    and plain: "isPlainObject data"
  shows "(case learnFromJsonResponse P L resp url s of
            (r, s') \<Rightarrow>
              requestToStructureId s' url = Some (sd_id (createStructureDefinition P data))
              \<and> (\<forall>u c. u \<noteq> url \<longrightarrow> acceptIdHint P s' u c = acceptIdHint P s u c)
              \<and> (\<forall>origin. urlOrigin P url = Some origin \<and> origin \<in> knownSynpaticoOrigins s \<longrightarrow>
                    acceptIdHint P s' url True = Some (sd_id (createStructureDefinition P data))))
         \<and> (newURL a = Some ua \<and> newURL b = Some ub \<and> url_origin ua = url_origin ub
              \<and> url_pathname ua = url_pathname ub \<longrightarrow>
            registryKey newURL a = registryKey newURL b)"
proof -
  obtain r s' where run: "learnFromJsonResponse P L resp url s = (r, s')"
    by (cases "learnFromJsonResponse P L resp url s") auto
  from learn_registry[OF parse plain, where L = L and url = url and s = s] run
  have reg: "requestToStructureId s' =
               (requestToStructureId s)(url \<mapsto> sd_id (createStructureDefinition P data))"
    and kn: "knownSynpaticoOrigins s' = knownSynpaticoOrigins s" by auto
  have "\<forall>u c. u \<noteq> url \<longrightarrow> acceptIdHint P s' u c = acceptIdHint P s u c"
    using reg kn by (auto simp: acceptIdHint_def split: option.splits)
  moreover have "\<forall>origin. urlOrigin P url = Some origin \<and> origin \<in> knownSynpaticoOrigins s \<longrightarrow>
                    acceptIdHint P s' url True = Some (sd_id (createStructureDefinition P data))"
    using reg kn by (auto simp: acceptIdHint_def)
  moreover have "newURL a = Some ua \<and> newURL b = Some ub \<and> url_origin ua = url_origin ub
              \<and> url_pathname ua = url_pathname ub \<longrightarrow> registryKey newURL a = registryKey newURL b"
    by (simp add: registryKey_def)
  ultimately show ?thesis using run reg by simp
qed

theorem request_key_is_url_string_witness:
  "JSON_parse (demoPlatform []) (resp_body learnResp) = Some (JObj [(''a'', JNum 1)])
   \<and> isPlainObject (JObj [(''a'', JNum 1)])
   \<and> requestToStructureId
        (snd (learnFromJsonResponse (demoPlatform []) demoHooks learnResp demoUrl hintedState)) demoUrl
       = Some ''S:a''
   \<and> ''https://a.io/u?n=6'' \<noteq> demoUrl
   \<and> acceptIdHint (demoPlatform [])
        (snd (learnFromJsonResponse (demoPlatform []) demoHooks learnResp demoUrl hintedState))
        ''https://a.io/u?n=6'' True = None
   \<and> urlOrigin (demoPlatform []) demoUrl = Some ''https://a.io''
   \<and> ''https://a.io'' \<in> knownSynpaticoOrigins hintedState
   \<and> acceptIdHint (demoPlatform [])
        (snd (learnFromJsonResponse (demoPlatform []) demoHooks learnResp demoUrl hintedState))
        demoUrl True = Some ''S:a''
   \<and> demoNewURL ''https://a.io/u?n=5''
       = Some \<lparr>url_origin = ''https://a.io'', url_pathname = ''/u'', url_search = ''?n=5''\<rparr>
   \<and> demoNewURL ''https://a.io/u?n=6''
       = Some \<lparr>url_origin = ''https://a.io'', url_pathname = ''/u'', url_search = ''?n=6''\<rparr>
   \<and> registryKey demoNewURL ''https://a.io/u?n=5'' = registryKey demoNewURL ''https://a.io/u?n=6''"
proof -
  let ?P = "demoPlatform []"
  let ?d = "JObj [(''a'', JNum 1)]"
  let ?s' = "snd (learnFromJsonResponse ?P demoHooks learnResp demoUrl hintedState)"
  let ?ua = "\<lparr>url_origin = ''https://a.io'', url_pathname = ''/u'', url_search = ''?n=5''\<rparr>"
  let ?ub = "\<lparr>url_origin = ''https://a.io'', url_pathname = ''/u'', url_search = ''?n=6''\<rparr>"
  have h1: "JSON_parse ?P (resp_body learnResp) = Some ?d" by (simp add: demo_defs learnResp_def)
  have h2: "isPlainObject ?d" by (simp add: isPlainObject_def)
  have h3: "''https://a.io/u?n=6'' \<noteq> demoUrl" by (simp add: demoUrl_def)
  have h4: "urlOrigin ?P demoUrl = Some ''https://a.io''" by (simp add: demo_defs)
  have h5: "''https://a.io'' \<in> knownSynpaticoOrigins hintedState" by (simp add: hintedState_def)
  have h6: "demoNewURL ''https://a.io/u?n=5'' = Some ?ua" by (simp add: demoNewURL_def)
  have h7: "demoNewURL ''https://a.io/u?n=6'' = Some ?ub" by (simp add: demoNewURL_def)
  have id: "sd_id (createStructureDefinition ?P ?d) = ''S:a''" by (simp add: demo_defs)
  have old: "acceptIdHint ?P hintedState ''https://a.io/u?n=6'' True = None"
    by (simp add: acceptIdHint_def demo_defs)
  from request_key_is_url_string[OF h1 h2, where L = demoHooks and url = demoUrl and s = hintedState
         and newURL = demoNewURL and a = "''https://a.io/u?n=5''" and b = "''https://a.io/u?n=6''"
         and ua = ?ua and ub = ?ub]
  have a: "requestToStructureId ?s' demoUrl = Some ''S:a''"
    and b: "acceptIdHint ?P ?s' ''https://a.io/u?n=6'' True = acceptIdHint ?P hintedState ''https://a.io/u?n=6'' True"
    and c: "acceptIdHint ?P ?s' demoUrl True = Some ''S:a''"
    and d: "registryKey demoNewURL ''https://a.io/u?n=5'' = registryKey demoNewURL ''https://a.io/u?n=6''"
    using h3 h4 h5 h6 h7 id by (auto split: prod.splits)
  show ?thesis using h1 h2 h3 h4 h5 h6 h7 a b c d old by simp
qed

text \<open>
  After a fetch of \<open>https://a.io/u?n=5\<close> has learned a structure, a GET to
  \<open>https://a.io/u?n=6\<close> (same origin, same path) finds no entry and carries no hint.
\<close>

theorem query_stripped_key_counterexample:
  "urlOrigin (demoPlatform [learnResp]) ''https://a.io/u?n=6'' = urlOrigin (demoPlatform [learnResp]) demoUrl
   \<and> requestToStructureId
        (snd (synpaticoFetch (demoPlatform [learnResp]) demoOpts demoUrl emptyInit createRegistry)) demoUrl
       = Some ''S:a''
   \<and> requestToStructureId
        (snd (synpaticoFetch (demoPlatform [learnResp]) demoOpts demoUrl emptyInit createRegistry))
        ''https://a.io/u?n=6'' = None
   \<and> structureIdHint (demoPlatform [learnResp])
        (snd (synpaticoFetch (demoPlatform [learnResp]) demoOpts demoUrl emptyInit createRegistry))
        demoUrl emptyInit = Some ''S:a''
   \<and> structureIdHint (demoPlatform [learnResp])
        (snd (synpaticoFetch (demoPlatform [learnResp]) demoOpts demoUrl emptyInit createRegistry))
        ''https://a.io/u?n=6'' emptyInit = None"
  by (simp add: core_defs demo_defs learnResp_def createRegistry_def)

section \<open>The bound on a telemetry bucket\<close>

lemma set_update_subset: "set (AList.update k v al) \<subseteq> insert (k, v) (set al)"
  by (induction al) auto

lemma length_alist_update:
  "length (AList.update k v al) = (if k \<in> fst ` set al then length al else Suc (length al))"
  by (induction al) auto

lemma addPaths_bounded:
  "distinct (map fst b) \<Longrightarrow> length b \<le> MAX_PATHS_PER_BUCKET \<Longrightarrow>
     distinct (map fst (addPaths b ps)) \<and> length (addPaths b ps) \<le> MAX_PATHS_PER_BUCKET"
proof (induction ps arbitrary: b)
  case Nil
  then show ?case by simp
next
  case (Cons p ps)
  show ?case
  proof (cases "map_of b p = None \<and> length b \<ge> MAX_PATHS_PER_BUCKET")
    case True
    then show ?thesis using Cons by simp
  next
    case False
    let ?b' = "AList.update p ((case map_of b p of None \<Rightarrow> 0 | Some c \<Rightarrow> c) + 1) b"
    have d: "distinct (map fst ?b')" using Cons.prems(1) by (simp add: distinct_update)
    have l: "length ?b' \<le> MAX_PATHS_PER_BUCKET"
      using False Cons.prems(2) by (auto simp: length_alist_update map_of_eq_None_iff)
    from Cons.IH[OF d l] False show ?thesis by auto
  qed
qed

lemma handleMsg_bounded:
  assumes "bucketsBounded bs"
  shows "bucketsBounded (handleMsg msg bs)"
proof -
  let ?key = "bucketKey (msg_structureId msg) (msg_endpoint msg)"
  let ?bucket = "case map_of bs ?key of None \<Rightarrow> [] | Some b \<Rightarrow> b"
  have old: "distinct (map fst ?bucket) \<and> length ?bucket \<le> MAX_PATHS_PER_BUCKET"
  proof (cases "map_of bs ?key")
    case None
    then show ?thesis by simp
  next
    case (Some b)
    then have "(?key, b) \<in> set bs" by (rule map_of_SomeD)
    with assms Some show ?thesis by (auto simp: bucketsBounded_def list_all_iff)
  qed
  have new: "\<And>ps. distinct (map fst (addPaths ?bucket ps))
                 \<and> length (addPaths ?bucket ps) \<le> MAX_PATHS_PER_BUCKET"
    using old addPaths_bounded by blast
  show ?thesis
    using assms new set_update_subset
    unfolding bucketsBounded_def handleMsg_def Let_def list_all_iff
    by (cases msg) (fastforce)+
qed

lemma workerStep_bounded: "bucketsBounded bs \<Longrightarrow> bucketsBounded (workerStep bs ev)"
  by (cases ev) (simp_all add: handleMsg_bounded, simp add: bucketsBounded_def)

lemma foldl_workerStep_bounded:
  "bucketsBounded bs \<Longrightarrow> bucketsBounded (foldl workerStep bs evs)"
  by (induction evs arbitrary: bs) (simp_all add: workerStep_bounded)

lemma replicate_a_not_b: "replicate n CHR ''a'' \<noteq> ''b''"
  by (cases n) auto

lemma addPaths_known_counted:
  "map_of b k = Some c \<Longrightarrow> map_of (addPaths b ps) k = Some (c + count_list ps k)"
proof (induction ps arbitrary: b c)
  case Nil
  then show ?case by simp
next
  case (Cons p ps)
  show ?case
  proof (cases "p = k")
    case True
    let ?b' = "AList.update k (c + 1) b"
    have "map_of ?b' k = Some (c + 1)" by (simp add: update_conv')
    from Cons.IH[OF this] True Cons.prems show ?thesis by simp
  next
    case False
    let ?b' = "AList.update p ((case map_of b p of None \<Rightarrow> 0 | Some c \<Rightarrow> c) + 1) b"
    have "map_of ?b' k = Some c" using False Cons.prems by (simp add: update_conv')
    from Cons.IH[OF this] Cons.IH[OF Cons.prems] False show ?thesis by simp
  qed
qed

lemma addPaths_saturated_keys:
  "MAX_PATHS_PER_BUCKET \<le> length b \<Longrightarrow> map fst (addPaths b ps) = map fst b"
proof (induction ps arbitrary: b)
  case Nil
  then show ?case by simp
next
  case (Cons p ps)
  show ?case
  proof (cases "map_of b p")
    case None
    with Cons show ?thesis by simp
  next
    case (Some c)
    let ?b' = "AList.update p (c + 1) b"
    have in_keys: "p \<in> fst ` set b"
      using Some map_of_eq_None_iff[of b p] by auto
    have k: "map fst ?b' = map fst b" using in_keys by (simp add: update_keys)
    have l: "MAX_PATHS_PER_BUCKET \<le> length ?b'"
      using in_keys Cons.prems by (simp add: length_alist_update)
    from Cons.IH[OF l] k Some show ?thesis by simp
  qed
qed

lemma addPaths_saturated_dropped:
  assumes "map_of b k = None" and "MAX_PATHS_PER_BUCKET \<le> length b"
  shows "map_of (addPaths b ps) k = None"
proof -
  have "k \<notin> set (map fst b)" using assms(1) by (simp add: map_of_eq_None_iff)
  then have "k \<notin> set (map fst (addPaths b ps))"
    using addPaths_saturated_keys[OF assms(2)] by simp
  then show ?thesis by (simp add: map_of_eq_None_iff)
qed

lemma addPaths_room_admitted:
  assumes "map_of b p = None" and "length b < MAX_PATHS_PER_BUCKET"
  shows "map_of (addPaths b (p # ps)) p = Some (1 + count_list ps p)"
proof -
  have "map_of (AList.update p 1 b) p = Some 1" by (simp add: update_conv')
  from addPaths_known_counted[OF this] assms show ?thesis by simp
qed

lemma handleMsg_bucket:
  "map_of (handleMsg msg bs) (bucketKey (msg_structureId msg) (msg_endpoint msg))
     = Some (addPaths (bucketOf bs msg) (msgPaths msg))"
  by (cases msg) (simp_all add: handleMsg_def bucketOf_def update_conv' Let_def)

lemma handleMsg_others:
  "k \<noteq> bucketKey (msg_structureId msg) (msg_endpoint msg) \<Longrightarrow>
     map_of (handleMsg msg bs) k = map_of bs k"
  by (simp add: handleMsg_def update_conv' Let_def)

lemma map_of_const_map:
  "i \<in> set xs \<Longrightarrow> map_of (map (\<lambda>n. (f n, v)) xs) (f i) = Some v"
  by (induction xs) auto

lemma fullBucket_facts:
  "map_of fullBucket ''b'' = None"
  "map_of fullBucket ''aa'' = Some 1"
  "length fullBucket = 5000"
proof -
  show "map_of fullBucket ''b'' = None"
    by (auto simp: fullBucket_def map_of_eq_None_iff image_image replicate_a_not_b[symmetric])
  have "map_of fullBucket (replicate 2 CHR ''a'') = Some 1"
    unfolding fullBucket_def by (rule map_of_const_map) simp
  then show "map_of fullBucket ''aa'' = Some 1" by (simp add: numeral_2_eq_2)
  show "length fullBucket = 5000" by (simp add: fullBucket_def)
qed

text \<open>
  C8. Whatever messages and flushes the worker has processed since it started, every
  bucket is a map (its paths are distinct) of at most \<open>MAX_PATHS_PER_BUCKET\<close> paths; as
  a message is processed path by path and a prefix of a message is a message, this holds
  after every single path as well. A path the bucket does not have, arriving at a bucket
  that is full, is skipped, and the rest of the message is still processed. Handling a
  message never fails and leaves its bucket with these counts: every path the bucket
  already had is counted once for each of its occurrences in the message, wherever they
  stand and whether or not the bucket is full; when the bucket is full its paths stay
  the same and every path it did not have stays out; and when there is room, the first
  path of the message, if new, enters and is counted once for each of its occurrences.
  The other buckets are untouched.
\<close>

theorem bucket_cap_invariant:
  "bucketsBounded (runWorker evs)
   \<and> (map_of bucket p = None \<and> MAX_PATHS_PER_BUCKET \<le> length bucket \<longrightarrow>
        addPaths bucket (p # ps) = addPaths bucket ps)
   \<and> (case map_of (handleMsg msg bs) (bucketKey (msg_structureId msg) (msg_endpoint msg)) of
         None \<Rightarrow> False
       | Some b' \<Rightarrow>
           (\<forall>k c. map_of (bucketOf bs msg) k = Some c \<longrightarrow>
                  map_of b' k = Some (c + count_list (msgPaths msg) k))
           \<and> (MAX_PATHS_PER_BUCKET \<le> length (bucketOf bs msg) \<longrightarrow>
                map fst b' = map fst (bucketOf bs msg)
                \<and> (\<forall>k. map_of (bucketOf bs msg) k = None \<longrightarrow> map_of b' k = None))
           \<and> (\<forall>q rest. msgPaths msg = q # rest \<and> map_of (bucketOf bs msg) q = None
                  \<and> length (bucketOf bs msg) < MAX_PATHS_PER_BUCKET \<longrightarrow>
                map_of b' q = Some (1 + count_list rest q)))
   \<and> (\<forall>k. k \<noteq> bucketKey (msg_structureId msg) (msg_endpoint msg) \<longrightarrow>
         map_of (handleMsg msg bs) k = map_of bs k)"
proof -
  have "bucketsBounded []" by (simp add: bucketsBounded_def)
  then have bound: "bucketsBounded (runWorker evs)"
    unfolding runWorker_def by (rule foldl_workerStep_bounded)
  have room: "\<forall>q rest. msgPaths msg = q # rest \<and> map_of (bucketOf bs msg) q = None
                  \<and> length (bucketOf bs msg) < MAX_PATHS_PER_BUCKET \<longrightarrow>
                map_of (addPaths (bucketOf bs msg) (msgPaths msg)) q = Some (1 + count_list rest q)"
    using addPaths_room_admitted by metis
  show ?thesis
    using bound room
    by (simp add: handleMsg_bucket handleMsg_others addPaths_known_counted
                  addPaths_saturated_keys addPaths_saturated_dropped)
qed

theorem bucket_cap_invariant_witness:
  "bucketsBounded
     (runWorker [Message (PathsStrings ''S'' ''/e'' 0 [''a'', ''b'', ''a'']),
                 Message (PathsOrdinals ''S'' ''/e'' 1 [3, 12])])
   \<and> runWorker [Message (PathsStrings ''S'' ''/e'' 0 [''a'', ''b'', ''a'']),
                Message (PathsOrdinals ''S'' ''/e'' 1 [3, 12])]
       = [(''S@@/e'', [(''a'', 2), (''b'', 1), (''3'', 1), (''12'', 1)])]
   \<and> map_of fullBucket ''b'' = None
   \<and> MAX_PATHS_PER_BUCKET \<le> length fullBucket
   \<and> addPaths fullBucket [''b'', ''aa''] = addPaths fullBucket [''aa'']
   \<and> bucketOf [(''S@@/e'', fullBucket)] (PathsStrings ''S'' ''/e'' 0 [''b'', ''aa'', ''b'', ''aa'']) = fullBucket
   \<and> map_of fullBucket ''aa'' = Some 1
   \<and> (case map_of (handleMsg (PathsStrings ''S'' ''/e'' 0 [''b'', ''aa'', ''b'', ''aa''])
                      [(''S@@/e'', fullBucket)]) ''S@@/e'' of
         None \<Rightarrow> False
       | Some b' \<Rightarrow>
           map_of b' ''aa'' = Some 3 \<and> map_of b' ''b'' = None \<and> map fst b' = map fst fullBucket)
   \<and> msgPaths (PathsStrings ''S'' ''/e'' 0 [''a'', ''b'', ''a'']) = ''a'' # [''b'', ''a'']
   \<and> map_of (bucketOf [] (PathsStrings ''S'' ''/e'' 0 [''a'', ''b'', ''a''])) ''a'' = None
   \<and> length (bucketOf [] (PathsStrings ''S'' ''/e'' 0 [''a'', ''b'', ''a''])) < MAX_PATHS_PER_BUCKET
   \<and> (case map_of (handleMsg (PathsStrings ''S'' ''/e'' 0 [''a'', ''b'', ''a'']) []) ''S@@/e'' of
         None \<Rightarrow> False
       | Some b' \<Rightarrow> map_of b' ''a'' = Some 2)
   \<and> ''T@@/e'' \<noteq> bucketKey ''S'' ''/e''
   \<and> map_of (handleMsg (PathsStrings ''S'' ''/e'' 0 [''b'', ''aa'', ''b'', ''aa''])
               [(''S@@/e'', fullBucket)]) ''T@@/e'' = None"
proof -
  let ?evs = "[Message (PathsStrings ''S'' ''/e'' 0 [''a'', ''b'', ''a'']),
               Message (PathsOrdinals ''S'' ''/e'' 1 [3, 12])]"
  let ?m1 = "PathsStrings ''S'' ''/e'' 0 [''b'', ''aa'', ''b'', ''aa'']"
  let ?m2 = "PathsStrings ''S'' ''/e'' 0 [''a'', ''b'', ''a'']"
  let ?bs = "[(''S@@/e'', fullBucket)]"
  have key: "bucketKey ''S'' ''/e'' = ''S@@/e''" by (simp add: bucketKey_def)
  have h2: "MAX_PATHS_PER_BUCKET \<le> length fullBucket"
    by (simp add: fullBucket_facts MAX_PATHS_PER_BUCKET_def)
  have run: "runWorker ?evs = [(''S@@/e'', [(''a'', 2), (''b'', 1), (''3'', 1), (''12'', 1)])]"
    by (simp add: runWorker_def handleMsg_def bucketKey_def MAX_PATHS_PER_BUCKET_def
                  String_of_def digitsOf.simps)
  have old1: "bucketOf ?bs ?m1 = fullBucket" by (simp add: bucketOf_def key)
  have old2: "bucketOf [] ?m2 = []" by (simp add: bucketOf_def)
  have ne: "''T@@/e'' \<noteq> bucketKey ''S'' ''/e''" by (simp add: key)
  note t1 = bucket_cap_invariant[where evs = ?evs and bucket = fullBucket and p = "''b''"
              and ps = "[''aa'']" and msg = ?m1 and bs = ?bs]
  note t2 = bucket_cap_invariant[where evs = ?evs and bucket = fullBucket and p = "''b''"
              and ps = "[''aa'']" and msg = ?m2 and bs = "[]"]
  have a: "bucketsBounded (runWorker ?evs)" using t1 by blast
  have b: "addPaths fullBucket [''b'', ''aa''] = addPaths fullBucket [''aa'']"
    using t1 fullBucket_facts(1) h2 by blast
  obtain b1 where g1: "map_of (handleMsg ?m1 ?bs) ''S@@/e'' = Some b1"
    using t1 by (auto simp: key split: option.splits)
  have c1: "map_of b1 ''aa'' = Some 3"
    using t1 g1 old1 fullBucket_facts(2) by (auto simp: key)
  have c2: "map_of b1 ''b'' = None \<and> map fst b1 = map fst fullBucket"
    using t1 g1 old1 fullBucket_facts(1) h2 by (auto simp: key)
  obtain b2 where g2: "map_of (handleMsg ?m2 []) ''S@@/e'' = Some b2"
    using t2 by (auto simp: key split: option.splits)
  have c3: "map_of b2 ''a'' = Some 2"
    using t2 g2 old2 by (auto simp: key MAX_PATHS_PER_BUCKET_def)
  have c4: "map_of (handleMsg ?m1 ?bs) ''T@@/e'' = None"
    using t1 ne by (auto simp: key)
  show ?thesis
    using a run fullBucket_facts(1,2) h2 b old1 old2 g1 c1 c2 g2 c3 ne c4
    by (simp add: MAX_PATHS_PER_BUCKET_def)
qed

section \<open>The limits of the tracking proxy\<close>

lemma createTrackingProxy_Proxy:
  "createTrackingProxy v ctx options path d = Proxy obj fp d' \<Longrightarrow>
     obj = v \<and> d' = d \<and> int d \<le> opt_maxDepth (mergeOptions options) \<and> \<not> opaqueBuiltin v"
  by (auto simp: createTrackingProxy_def Let_def opaqueBuiltin_def split: if_splits)

lemma createTrackingProxy_opaque:
  "opaqueBuiltin v \<Longrightarrow> createTrackingProxy v ctx options path d = Unwrapped v"
  by (auto simp: createTrackingProxy_def Let_def opaqueBuiltin_def)

lemma getTrap_Proxy:
  "getTrap ctx options obj fullPath d p = (evs, Proxy obj' fp d') \<Longrightarrow>
     d' = Suc d \<and> int d' \<le> opt_maxDepth (mergeOptions options) \<and> \<not> opaqueBuiltin obj'"
  by (auto simp: getTrap_def Let_def split: property_key.splits if_splits
           dest!: createTrackingProxy_Proxy)

lemma getTrap_events:
  "getTrap ctx options obj fullPath d p = (evs, t) \<Longrightarrow> e \<in> set evs \<Longrightarrow> ev_depth e = d"
  by (auto simp: getTrap_def Let_def split: property_key.splits if_splits)

lemma getTrap_excluded:
  "name \<in> set (opt_excludePaths (mergeOptions options)) \<Longrightarrow>
     getTrap ctx options obj fullPath d (PString name)
       = ([], Unwrapped (Reflect_get obj (PString name)))"
  by (simp add: getTrap_def)

lemma getTrap_opaque:
  "opaqueBuiltin (Reflect_get obj p) \<Longrightarrow>
     snd (getTrap ctx options obj fullPath d p) = Unwrapped (Reflect_get obj p)"
  by (auto simp: getTrap_def Let_def createTrackingProxy_opaque split: property_key.splits)

lemma readChain_Unwrapped:
  "readChain ctx options (Unwrapped v) ps = Some (evs, t) \<Longrightarrow>
     evs = [] \<and> (\<exists>w. t = Unwrapped w)"
  by (induction ps arbitrary: v) (auto split: if_splits)

lemma readChain_Proxy:
  "readChain ctx options (Proxy obj fp d) ps = Some (evs, t) \<Longrightarrow>
   int d \<le> opt_maxDepth (mergeOptions options) \<Longrightarrow> \<not> opaqueBuiltin obj \<Longrightarrow>
     \<not> wrapsOpaque t
     \<and> (\<forall>d'. proxyDepth t = Some d' \<longrightarrow>
           d' = d + length ps \<and> int d' \<le> opt_maxDepth (mergeOptions options))
     \<and> (\<forall>e \<in> set evs. int (ev_depth e) \<le> opt_maxDepth (mergeOptions options))"
proof (induction ps arbitrary: obj fp d evs)
  case Nil
  then show ?case by (auto simp: opaqueBuiltin_def)
next
  case (Cons p ps)
  obtain evs1 t1 where g: "getTrap ctx options obj fp d p = (evs1, t1)"
    by (cases "getTrap ctx options obj fp d p") auto
  with Cons.prems(1) obtain evs2 where r: "readChain ctx options t1 ps = Some (evs2, t)"
    and ev: "evs = evs1 @ evs2"
    by (auto split: option.splits)
  have e1: "\<forall>e \<in> set evs1. int (ev_depth e) \<le> opt_maxDepth (mergeOptions options)"
    using getTrap_events[OF g] Cons.prems(2) by auto
  show ?case
  proof (cases t1)
    case (Unwrapped v)
    with readChain_Unwrapped[OF r[unfolded Unwrapped]] e1 ev show ?thesis by auto
  next
    case (Proxy obj' fp' d')
    from getTrap_Proxy[OF g[unfolded Proxy]]
    have d': "d' = Suc d" "int d' \<le> opt_maxDepth (mergeOptions options)" "\<not> opaqueBuiltin obj'"
      by auto
    from Cons.IH[OF r[unfolded Proxy] d'(2) d'(3)] d'(1) e1 ev show ?thesis by auto
  qed
qed

text \<open>
  C9. Take what \<open>createTrackingProxy\<close> returns for any target, options and starting
  depth, and follow any chain of property reads from it. What the chain ends in is never
  a proxy around a Date, RegExp or Error object; when it is a proxy, its depth is the
  starting depth plus the number of reads and does not exceed \<open>maxDepth\<close>, so a value
  nested deeper comes back unwrapped; and every access event recorded on the way was
  recorded at a depth within \<open>maxDepth\<close>. A read of a name on the exclusion list
  returns the property's value unwrapped and records no event. An opaque built-in value
  is returned unwrapped, both when it is the target and when it is the value of a
  property read through a proxy.
\<close>

theorem tracking_limits:
  "(readChain ctx options (createTrackingProxy target ctx options currentPath depth) ps
      = Some (evs, t) \<longrightarrow>
      \<not> wrapsOpaque t
      \<and> (\<forall>d. proxyDepth t = Some d \<longrightarrow>
            d = depth + length ps \<and> int d \<le> opt_maxDepth (mergeOptions options))
      \<and> (\<forall>e \<in> set evs. int (ev_depth e) \<le> opt_maxDepth (mergeOptions options)))
   \<and> (name \<in> set (opt_excludePaths (mergeOptions options)) \<longrightarrow>
        getTrap ctx options obj fullPath depth (PString name)
          = ([], Unwrapped (Reflect_get obj (PString name))))
   \<and> (opaqueBuiltin v \<longrightarrow>
        createTrackingProxy v ctx options currentPath depth = Unwrapped v)
   \<and> (opaqueBuiltin (Reflect_get obj p) \<longrightarrow>
        snd (getTrap ctx options obj fullPath depth p) = Unwrapped (Reflect_get obj p))"
proof -
  have chain: "\<not> wrapsOpaque t
      \<and> (\<forall>d. proxyDepth t = Some d \<longrightarrow>
            d = depth + length ps \<and> int d \<le> opt_maxDepth (mergeOptions options))
      \<and> (\<forall>e \<in> set evs. int (ev_depth e) \<le> opt_maxDepth (mergeOptions options))"
    if run: "readChain ctx options (createTrackingProxy target ctx options currentPath depth) ps
      = Some (evs, t)"
  proof (cases "createTrackingProxy target ctx options currentPath depth")
    case (Unwrapped w)
    with readChain_Unwrapped[OF run[unfolded Unwrapped]] show ?thesis by auto
  next
    case (Proxy obj' fp d')
    from createTrackingProxy_Proxy[OF Proxy]
    have "d' = depth" "int depth \<le> opt_maxDepth (mergeOptions options)" "\<not> opaqueBuiltin obj'"
      by auto
    with readChain_Proxy[OF run[unfolded Proxy]] show ?thesis by auto
  qed
  show ?thesis
    using chain getTrap_excluded[of name options ctx obj fullPath depth]
      createTrackingProxy_opaque[of v ctx options currentPath depth]
      getTrap_opaque[of obj p ctx options fullPath depth]
    by blast
qed

lemmas proxy_defs = createTrackingProxy_def getTrap_def mergeOptions_def DEFAULT_OPTIONS_def
  rootPathOr_def demoContext_def shallowOptions_def demoTarget_def opaqueBuiltin_def Let_def

theorem tracking_limits_witness:
  "readChain demoContext shallowOptions (createTrackingProxy demoTarget demoContext shallowOptions [] 0)
      [PString ''a'']
     = Some ([\<lparr>ev_url = ''https://a.io/u'', ev_structureId = ''S:a'', ev_propertyPath = ''a'',
               ev_depth = 0, ev_dataType = ''object'', ev_wasOptimized = True,
               ev_originalSize = None, ev_compressedSize = None\<rparr>],
             Proxy (VObj PlainObject [(''b'', VObj PlainObject [(''c'', VNum 1)])]) ''a'' 1)
   \<and> proxyDepth (Proxy (VObj PlainObject [(''b'', VObj PlainObject [(''c'', VNum 1)])]) ''a'' 1) = Some 1
   \<and> int 1 \<le> opt_maxDepth (mergeOptions shallowOptions)
   \<and> snd (the (readChain demoContext shallowOptions
                 (createTrackingProxy demoTarget demoContext shallowOptions [] 0)
                 [PString ''a'', PString ''b'']))
       = Unwrapped (VObj PlainObject [(''c'', VNum 1)])
   \<and> ''toString'' \<in> set (opt_excludePaths (mergeOptions shallowOptions))
   \<and> getTrap demoContext shallowOptions demoTarget [] 0 (PString ''toString'') = ([], Unwrapped (VStr ''x''))
   \<and> opaqueBuiltin (VObj DateObject [])
   \<and> createTrackingProxy (VObj DateObject []) demoContext shallowOptions [] 0 = Unwrapped (VObj DateObject [])
   \<and> opaqueBuiltin (Reflect_get demoTarget (PString ''when''))
   \<and> snd (getTrap demoContext shallowOptions demoTarget [] 0 (PString ''when'')) = Unwrapped (VObj DateObject [])"
proof -
  let ?inner = "VObj PlainObject [(''b'', VObj PlainObject [(''c'', VNum 1)])]"
  let ?ev = "\<lparr>ev_url = ''https://a.io/u'', ev_structureId = ''S:a'', ev_propertyPath = ''a'',
               ev_depth = 0, ev_dataType = ''object'', ev_wasOptimized = True,
               ev_originalSize = None, ev_compressedSize = None\<rparr>"
  have h1: "readChain demoContext shallowOptions
              (createTrackingProxy demoTarget demoContext shallowOptions [] 0) [PString ''a'']
            = Some ([?ev], Proxy ?inner ''a'' 1)"
    by (simp add: proxy_defs)
  have h2: "''toString'' \<in> set (opt_excludePaths (mergeOptions shallowOptions))"
    by (simp add: proxy_defs)
  have h3: "opaqueBuiltin (VObj DateObject [])" by (simp add: opaqueBuiltin_def)
  have h4: "opaqueBuiltin (Reflect_get demoTarget (PString ''when''))"
    by (simp add: proxy_defs)
  have two: "snd (the (readChain demoContext shallowOptions
                 (createTrackingProxy demoTarget demoContext shallowOptions [] 0)
                 [PString ''a'', PString ''b'']))
       = Unwrapped (VObj PlainObject [(''c'', VNum 1)])"
    by (simp add: proxy_defs)
  have rg: "Reflect_get demoTarget (PString ''toString'') = VStr ''x''"
    "Reflect_get demoTarget (PString ''when'') = VObj DateObject []"
    by (simp_all add: demoTarget_def)
  from tracking_limits[where ctx = demoContext and options = shallowOptions and target = demoTarget
        and currentPath = "[]" and depth = 0 and ps = "[PString ''a'']" and evs = "[?ev]"
        and t = "Proxy ?inner ''a'' 1" and name = "''toString''" and obj = demoTarget and fullPath = "[]"
        and v = "VObj DateObject []" and p = "PString ''when''"]
    h1 h2 h3 h4 rg two
  show ?thesis by simp
qed

end
